theory Spec2Isabelle
  imports Complex_Main
begin

section \<open>Data model of trade.py\<close>

text \<open>
  Python's numbers (the balance, a wagered amount, a balance snapshot) are values of a
  type \<open>'n\<close>, and Python's arithmetic on them is a parameter: the literals and the
  operations the program uses, with nothing assumed about them. What is proved holds for
  every arithmetic, that of IEEE doubles included. Strings are byte lists; a character
  outside ASCII is spelled as its UTF-8 bytes.
\<close>

record 'n arith =
  py_int :: "int \<Rightarrow> 'n"
  py_point_nine :: 'n
  py_one :: 'n
  py_add :: "'n \<Rightarrow> 'n \<Rightarrow> 'n"
  py_mul :: "'n \<Rightarrow> 'n \<Rightarrow> 'n"
  py_neg :: "'n \<Rightarrow> 'n"
  py_lt :: "'n \<Rightarrow> 'n \<Rightarrow> bool"

text \<open>
  \<open>py_int k\<close> is the int literal \<open>k\<close>, \<open>py_point_nine\<close> the float literal \<^verbatim>\<open>0.9\<close>,
  \<open>py_one\<close> the float literal \<^verbatim>\<open>1.0\<close>; \<open>py_add\<close>, \<open>py_mul\<close>, \<open>py_neg\<close> and \<open>py_lt\<close> are
  \<^verbatim>\<open>+\<close>, \<^verbatim>\<open>*\<close>, unary \<^verbatim>\<open>-\<close> and \<^verbatim>\<open><\<close>.
\<close>

text \<open>\<^verbatim>\<open>class Trade\<close>: amount, prediction, result.\<close>

record 'n trade =
  amount :: 'n
  prediction :: string
  result :: string

text \<open>One entry of \<^verbatim>\<open>User.history\<close>: the dict \<^verbatim>\<open>{"timestamp": ..., "balance": ...}\<close>.\<close>

record 'n snapshot =
  timestamp :: string
  snap_balance :: 'n

text \<open>\<^verbatim>\<open>class User\<close>.\<close>

record 'n user =
  username :: string
  account_type :: string
  hashed_password :: "string option"
  balance :: 'n
  trades :: "'n trade list"
  history :: "'n snapshot list"
  premium_unlocked :: bool

text \<open>\<^verbatim>\<open>Trade.__init__\<close> and \<^verbatim>\<open>Trade.is_win\<close>.\<close>

definition Trade :: "'n \<Rightarrow> string \<Rightarrow> string \<Rightarrow> 'n trade" where
  "Trade a p r = \<lparr>amount = a, prediction = p, result = r\<rparr>"

definition is_win :: "'n trade \<Rightarrow> bool" where
  "is_win t = (prediction t = result t)"

text \<open>\<^verbatim>\<open>User.__init__(username, account_type="demo", hashed_password=None)\<close>.\<close>

definition User :: "'n arith \<Rightarrow> string \<Rightarrow> string \<Rightarrow> string option \<Rightarrow> 'n user" where
  "User ar n t h =
     \<lparr>username = n, account_type = t, hashed_password = h,
      balance = (if t = ''demo'' then py_int ar 10000 else py_int ar 0),
      trades = [], history = [], premium_unlocked = False\<rparr>"

text \<open>
  \<^verbatim>\<open>User.update_balance(amount)\<close>; \<open>now\<close> is what \<^verbatim>\<open>str(datetime.now())\<close> gives
  at the call.
\<close>

definition update_balance :: "'n arith \<Rightarrow> string \<Rightarrow> 'n \<Rightarrow> 'n user \<Rightarrow> 'n user" where
  "update_balance ar now d u =
     (let b = py_add ar (balance u) d
      in u\<lparr>balance := b, history := history u @ [\<lparr>timestamp = now, snap_balance = b\<rparr>]\<rparr>)"

text \<open>
  The three labels of \<^verbatim>\<open>User.get_level\<close>. Each starts with an emoji (U+1F31F, U+1F525,
  U+1F530), four bytes in UTF-8, and a space.
\<close>

definition label_pro :: string where
  "label_pro = [CHR 0xF0, CHR 0x9F, CHR 0x8C, CHR 0x9F] @ '' Pro''"

definition label_intermediate :: string where
  "label_intermediate = [CHR 0xF0, CHR 0x9F, CHR 0x94, CHR 0xA5] @ '' Intermediate''"

definition label_beginner :: string where
  "label_beginner = [CHR 0xF0, CHR 0x9F, CHR 0x94, CHR 0xB0] @ '' Beginner''"

definition get_level :: "'n user \<Rightarrow> string" where
  "get_level u =
     (let count = length (trades u)
      in if count \<ge> 31 then label_pro
         else if count \<ge> 11 then label_intermediate
         else label_beginner)"

text \<open>
  The order of the tiers, Beginner below Intermediate below Pro, as a rank of the label.
\<close>

definition level_rank :: "string \<Rightarrow> nat" where
  "level_rank l = (if l = label_pro then 2 else if l = label_intermediate then 1 else 0)"

section \<open>JSON values and Python dicts\<close>

text \<open>
  What \<^verbatim>\<open>json.load\<close> returns and \<^verbatim>\<open>json.dump\<close> takes. An object is a Python dict:
  an association list in insertion order, whose keys are distinct.
\<close>

datatype 'n json =
    JNull
  | JBool bool
  | JNum 'n
  | JStr string
  | JList "'n json list"
  | JObj "(string \<times> 'n json) list"

text \<open>The exceptions the modelled code can raise.\<close>

datatype py_error =
    KeyError
  | TypeError
  | AttributeError
  | IndexError
  | ValueError
  | ProviderError string
  | IllTyped

text \<open>\<^verbatim>\<open>d.get(k)\<close>, \<^verbatim>\<open>k in d\<close> and \<^verbatim>\<open>d[k] = v\<close> on a dict.\<close>

definition dict_get :: "('k \<times> 'v) list \<Rightarrow> 'k \<Rightarrow> 'v option" where
  "dict_get d k = map_of d k"

definition dict_has :: "('k \<times> 'v) list \<Rightarrow> 'k \<Rightarrow> bool" where
  "dict_has d k = (map_of d k \<noteq> None)"

fun dict_set :: "('k \<times> 'v) list \<Rightarrow> 'k \<Rightarrow> 'v \<Rightarrow> ('k \<times> 'v) list" where
  "dict_set [] k v = [(k, v)]"
| "dict_set ((k', v') # d) k v =
     (if k' = k then (k, v) # d else (k', v') # dict_set d k v)"

text \<open>\<^verbatim>\<open>x[k]\<close> for a string key \<open>k\<close> on a JSON value: only a dict that has the key answers.\<close>

definition subscript :: "'n json \<Rightarrow> string \<Rightarrow> py_error + 'n json" where
  "subscript x k =
     (case x of
        JObj d \<Rightarrow> (case dict_get d k of None \<Rightarrow> Inl KeyError | Some v \<Rightarrow> Inr v)
      | _ \<Rightarrow> Inl TypeError)"

section \<open>Market oracle\<close>

text \<open>
  What \<^verbatim>\<open>requests.get(url)\<close> followed by \<^verbatim>\<open>response.json()\<close> can do: the request
  raises, the body is not JSON, or the body parses to a JSON value.
\<close>

datatype 'n fetch = RequestFailed | BodyNotJSON | Body "'n json"

text \<open>\<^verbatim>\<open>random.choice(xs)\<close> on a non-empty list, \<open>r\<close> being the number drawn.\<close>

definition random_choice :: "nat \<Rightarrow> 'a list \<Rightarrow> 'a" where
  "random_choice r xs = xs ! (r mod length xs)"

text \<open>
  The body of the \<^verbatim>\<open>try\<close> block of \<^verbatim>\<open>get_real_market_trend\<close>. Python's \<^verbatim>\<open>float(x)\<close>
  is the parameter \<open>py_float\<close> (\<open>Inl\<close> when it raises) and \<open>gt\<close> is \<^verbatim>\<open>>\<close> on the
  floats it returns.
\<close>

definition fetch_trend ::
    "('n json \<Rightarrow> py_error + 'f) \<Rightarrow> ('f \<Rightarrow> 'f \<Rightarrow> bool) \<Rightarrow> 'n fetch \<Rightarrow> py_error + string" where
  "fetch_trend py_float gt f =
     (case f of
        RequestFailed \<Rightarrow> Inl (ProviderError ''requests'')
      | BodyNotJSON \<Rightarrow> Inl ValueError
      | Body data \<Rightarrow>
          (case subscript data ''Time Series (1min)'' of
             Inl e \<Rightarrow> Inl e
           | Inr series \<Rightarrow>
               (case series of
                  JObj d \<Rightarrow>
                    (case map fst d of
                       t0 # t1 # _ \<Rightarrow>
                         (case subscript series t0 of
                            Inl e \<Rightarrow> Inl e
                          | Inr latest \<Rightarrow>
                              (case subscript series t1 of
                                 Inl e \<Rightarrow> Inl e
                               | Inr prev \<Rightarrow>
                                   (case subscript latest ''4. close'' of
                                      Inl e \<Rightarrow> Inl e
                                    | Inr lc \<Rightarrow>
                                        (case py_float lc of
                                           Inl e \<Rightarrow> Inl e
                                         | Inr l \<Rightarrow>
                                             (case subscript prev ''4. close'' of
                                                Inl e \<Rightarrow> Inl e
                                              | Inr pc \<Rightarrow>
                                                  (case py_float pc of
                                                     Inl e \<Rightarrow> Inl e
                                                   | Inr p \<Rightarrow>
                                                       Inr (if gt l p then ''up''
                                                            else ''down'')))))))
                     | _ \<Rightarrow> Inl IndexError)
                | _ \<Rightarrow> Inl AttributeError)))"

text \<open>
  \<^verbatim>\<open>get_real_market_trend\<close>: the bare \<^verbatim>\<open>except:\<close> turns every exception of the
  \<^verbatim>\<open>try\<close> block into a random choice.
\<close>

definition get_real_market_trend ::
    "('n json \<Rightarrow> py_error + 'f) \<Rightarrow> ('f \<Rightarrow> 'f \<Rightarrow> bool) \<Rightarrow> 'n fetch \<Rightarrow> nat \<Rightarrow> string" where
  "get_real_market_trend py_float gt f r =
     (case fetch_trend py_float gt f of
        Inr t \<Rightarrow> t
      | Inl e \<Rightarrow> random_choice r [''up'', ''down''])"

section \<open>Trading engine\<close>

text \<open>
  What the outside world supplies during one call of \<^verbatim>\<open>place_trade\<close>: Python's
  \<^verbatim>\<open>float\<close> and its \<^verbatim>\<open>>\<close>, the provider's answer, the number drawn by
  \<^verbatim>\<open>random\<close> and the clock.
\<close>

record ('n, 'f) world =
  w_float :: "'n json \<Rightarrow> py_error + 'f"
  w_gt :: "'f \<Rightarrow> 'f \<Rightarrow> bool"
  w_fetch :: "'n fetch"
  w_draw :: nat
  w_now :: string

text \<open>\<^verbatim>\<open>TradingSystem.get_market_result\<close>.\<close>

definition get_market_result :: "('n, 'f) world \<Rightarrow> string" where
  "get_market_result w = get_real_market_trend (w_float w) (w_gt w) (w_fetch w) (w_draw w)"

text \<open>
  \<^verbatim>\<open>TradingSystem.place_trade(amount, prediction)\<close> on the user \<^verbatim>\<open>self.user\<close>: the
  returned triple and the user after the call.
\<close>

definition place_trade ::
    "'n arith \<Rightarrow> ('n, 'f) world \<Rightarrow> 'n \<Rightarrow> string \<Rightarrow> 'n user \<Rightarrow>
     (bool \<times> string \<times> 'n) \<times> 'n user" where
  "place_trade ar w amt pred u =
     (let res = get_market_result w;
          t = Trade amt pred res;
          u1 = u\<lparr>trades := trades u @ [t]\<rparr>
      in if is_win t
         then (let win_amount = py_mul ar amt (py_point_nine ar)
               in ((True, res, win_amount), update_balance ar (w_now w) win_amount u1))
         else ((False, res, py_neg ar amt), update_balance ar (w_now w) (py_neg ar amt) u1))"

text \<open>
  A sequence of trades on one account: each element is the world of the call, the amount
  and the prediction. The result is the list of returned triples and the final account.
\<close>

fun place_trades ::
    "'n arith \<Rightarrow> (('n, 'f) world \<times> 'n \<times> string) list \<Rightarrow> 'n user \<Rightarrow>
     (bool \<times> string \<times> 'n) list \<times> 'n user" where
  "place_trades ar [] u = ([], u)"
| "place_trades ar ((w, amt, pred) # cs) u =
     (let (r, u1) = place_trade ar w amt pred u;
          (rs, u2) = place_trades ar cs u1
      in (r # rs, u2))"

text \<open>The delta of a returned triple.\<close>

definition delta_of :: "bool \<times> string \<times> 'n \<Rightarrow> 'n" where
  "delta_of r = snd (snd r)"

section \<open>Persistence store\<close>

text \<open>
  \<^verbatim>\<open>users.json\<close>: absent, present but not JSON, or holding a JSON value. Writing the
  file is taken to succeed.
\<close>

datatype 'n data_file = NoFile | NotJSON | Holds "'n json"

text \<open>Sequencing of computations that may raise.\<close>

definition bind_err :: "'e + 'a \<Rightarrow> ('a \<Rightarrow> 'e + 'b) \<Rightarrow> 'e + 'b" where
  "bind_err x f = (case x of Inl e \<Rightarrow> Inl e | Inr v \<Rightarrow> f v)"

fun collect :: "('a \<Rightarrow> 'e + 'b) \<Rightarrow> 'a list \<Rightarrow> 'e + 'b list" where
  "collect f [] = Inr []"
| "collect f (x # xs) =
     bind_err (f x) (\<lambda>y. bind_err (collect f xs) (\<lambda>ys. Inr (y # ys)))"

text \<open>
  The records are typed and Python's objects are not: \<^verbatim>\<open>load_users\<close> stores whatever
  value the file holds. Where the file holds a value of another JSON type than
  \<^verbatim>\<open>save_users\<close> writes at that place, the model answers \<open>IllTyped\<close>.
\<close>

definition as_str :: "'n json \<Rightarrow> py_error + string" where
  "as_str x = (case x of JStr s \<Rightarrow> Inr s | _ \<Rightarrow> Inl IllTyped)"

definition as_num :: "'n json \<Rightarrow> py_error + 'n" where
  "as_num x = (case x of JNum n \<Rightarrow> Inr n | _ \<Rightarrow> Inl IllTyped)"

definition as_bool :: "'n json \<Rightarrow> py_error + bool" where
  "as_bool x = (case x of JBool b \<Rightarrow> Inr b | _ \<Rightarrow> Inl IllTyped)"

definition as_str_or_none :: "'n json \<Rightarrow> py_error + string option" where
  "as_str_or_none x = (case x of JNull \<Rightarrow> Inr None | JStr s \<Rightarrow> Inr (Some s) | _ \<Rightarrow> Inl IllTyped)"

text \<open>\<^verbatim>\<open>vars(t)\<close> of a Trade, a history entry, and the record \<^verbatim>\<open>save_users\<close> builds for a user.\<close>

definition trade_vars :: "'n trade \<Rightarrow> 'n json" where
  "trade_vars t =
     JObj [(''amount'', JNum (amount t)), (''prediction'', JStr (prediction t)),
           (''result'', JStr (result t))]"

definition snapshot_dict :: "'n snapshot \<Rightarrow> 'n json" where
  "snapshot_dict h = JObj [(''timestamp'', JStr (timestamp h)), (''balance'', JNum (snap_balance h))]"

definition user_info :: "'n user \<Rightarrow> 'n json" where
  "user_info u =
     JObj [(''account_type'', JStr (account_type u)),
           (''balance'', JNum (balance u)),
           (''trades'', JList (map trade_vars (trades u))),
           (''history'', JList (map snapshot_dict (history u))),
           (''hashed_password'', (case hashed_password u of None \<Rightarrow> JNull | Some h \<Rightarrow> JStr h)),
           (''premium_unlocked'', JBool (premium_unlocked u))]"

text \<open>\<^verbatim>\<open>save_users(users)\<close>: the content of the file after the call.\<close>

definition save_users :: "(string \<times> 'n user) list \<Rightarrow> 'n data_file" where
  "save_users users = Holds (JObj (map (\<lambda>(name, u). (name, user_info u)) users))"

text \<open>
  \<^verbatim>\<open>Trade(**t)\<close>: \<open>t\<close> must be a dict whose keys are the three parameters of
  \<^verbatim>\<open>Trade.__init__\<close>, all of them and no other.
\<close>

definition trade_params :: "string list" where
  "trade_params = [''amount'', ''prediction'', ''result'']"

definition Trade_kwargs :: "'n json \<Rightarrow> py_error + 'n trade" where
  "Trade_kwargs t =
     (case t of
        JObj d \<Rightarrow>
          if list_all (\<lambda>k. k \<in> set trade_params) (map fst d) \<and> list_all (dict_has d) trade_params
          then bind_err (bind_err (subscript t ''amount'') as_num) (\<lambda>a.
               bind_err (bind_err (subscript t ''prediction'') as_str) (\<lambda>p.
               bind_err (bind_err (subscript t ''result'') as_str) (\<lambda>r.
               Inr (Trade a p r))))
          else Inl TypeError
      | _ \<Rightarrow> Inl TypeError)"

text \<open>
  \<^verbatim>\<open>[Trade(**t) for t in info.get("trades", [])]\<close>. Iterating a dict or a string yields
  strings, on which \<^verbatim>\<open>Trade(**t)\<close> raises; an empty one yields nothing.
\<close>

definition load_trades :: "'n json option \<Rightarrow> py_error + 'n trade list" where
  "load_trades x =
     (case x of
        None \<Rightarrow> Inr []
      | Some (JList ts) \<Rightarrow> collect Trade_kwargs ts
      | Some (JObj d) \<Rightarrow> (if d = [] then Inr [] else Inl TypeError)
      | Some (JStr s) \<Rightarrow> (if s = [] then Inr [] else Inl TypeError)
      | Some _ \<Rightarrow> Inl TypeError)"

text \<open>\<^verbatim>\<open>info.get("history", [])\<close>, read as a list of snapshots.\<close>

definition load_snapshot :: "'n json \<Rightarrow> py_error + 'n snapshot" where
  "load_snapshot h =
     (case h of
        JObj [(k1, JStr t), (k2, JNum b)] \<Rightarrow>
          if k1 = ''timestamp'' \<and> k2 = ''balance''
          then Inr \<lparr>timestamp = t, snap_balance = b\<rparr> else Inl IllTyped
      | _ \<Rightarrow> Inl IllTyped)"

definition load_history :: "'n json option \<Rightarrow> py_error + 'n snapshot list" where
  "load_history x =
     (case x of
        None \<Rightarrow> Inr []
      | Some (JList hs) \<Rightarrow> collect load_snapshot hs
      | Some _ \<Rightarrow> Inl IllTyped)"

text \<open>\<^verbatim>\<open>info.get("hashed_password")\<close> and \<^verbatim>\<open>info.get("premium_unlocked", False)\<close>.\<close>

definition load_hashed_password :: "'n json option \<Rightarrow> py_error + string option" where
  "load_hashed_password x = (case x of None \<Rightarrow> Inr None | Some v \<Rightarrow> as_str_or_none v)"

definition load_premium :: "'n json option \<Rightarrow> py_error + bool" where
  "load_premium x = (case x of None \<Rightarrow> Inr False | Some v \<Rightarrow> as_bool v)"

text \<open>The body of the loop of \<^verbatim>\<open>load_users\<close> for one item of the file.\<close>

definition load_user :: "'n arith \<Rightarrow> string \<Rightarrow> 'n json \<Rightarrow> py_error + 'n user" where
  "load_user ar name info =
     bind_err (bind_err (subscript info ''account_type'') as_str) (\<lambda>atype.
     (case info of
        JObj d \<Rightarrow>
          bind_err (load_hashed_password (dict_get d ''hashed_password'')) (\<lambda>hp.
          bind_err (bind_err (subscript info ''balance'') as_num) (\<lambda>b.
          bind_err (load_trades (dict_get d ''trades'')) (\<lambda>ts.
          bind_err (load_history (dict_get d ''history'')) (\<lambda>hs.
          bind_err (load_premium (dict_get d ''premium_unlocked'')) (\<lambda>pu.
          Inr ((User ar name atype hp)\<lparr>balance := b, trades := ts, history := hs,
                 hashed_password := hp, premium_unlocked := pu\<rparr>))))))
      | _ \<Rightarrow> Inl AttributeError))"

fun load_items ::
    "'n arith \<Rightarrow> (string \<times> 'n json) list \<Rightarrow> (string \<times> 'n user) list \<Rightarrow>
     py_error + (string \<times> 'n user) list" where
  "load_items ar [] users = Inr users"
| "load_items ar ((name, info) # rest) users =
     bind_err (load_user ar name info) (\<lambda>u. load_items ar rest (dict_set users name u))"

text \<open>\<^verbatim>\<open>load_users()\<close> on a given content of the file.\<close>

definition load_users :: "'n arith \<Rightarrow> 'n data_file \<Rightarrow> py_error + (string \<times> 'n user) list" where
  "load_users ar f =
     (case f of
        NoFile \<Rightarrow> Inr []
      | NotJSON \<Rightarrow> Inl ValueError
      | Holds data \<Rightarrow>
          (case data of JObj items \<Rightarrow> load_items ar items [] | _ \<Rightarrow> Inl AttributeError))"

section \<open>Program state\<close>

text \<open>
  The \<^verbatim>\<open>User\<close> objects live in a store and are referred to by address, since
  \<^verbatim>\<open>USERS[username]\<close> and \<^verbatim>\<open>st.session_state.user\<close> may or may not be the same
  object. \<open>shown\<close> collects what the page displays.
\<close>

datatype 'n notice =
    RegisterNeedsPassword
  | AccountCreated string
  | WelcomeBack string
  | IncorrectPassword
  | Uncaught py_error
  | NeedOneDollar
  | Won string 'n
  | Lost string 'n
  | EnterEmail
  | CheckoutLink string
  | SessionError py_error
  | StripeApiError py_error
  | PaymentConfirmed
  | NoPaymentFound
  | AlreadyPremium
  | PleaseLogIn

record 'n state =
  heap :: "'n user list"
  USERS :: "(string \<times> nat) list"
  session_user :: "nat option"
  session_email :: "string option"
  DATA_FILE :: "'n data_file"
  shown :: "'n notice list"

definition obj_at :: "'n state \<Rightarrow> nat \<Rightarrow> 'n user option" where
  "obj_at s a = (if a < length (heap s) then Some (heap s ! a) else None)"

definition set_obj :: "nat \<Rightarrow> 'n user \<Rightarrow> 'n state \<Rightarrow> 'n state" where
  "set_obj a u s = s\<lparr>heap := (heap s)[a := u]\<rparr>"

definition new_obj :: "'n user \<Rightarrow> 'n state \<Rightarrow> nat \<times> 'n state" where
  "new_obj u s = (length (heap s), s\<lparr>heap := heap s @ [u]\<rparr>)"

definition display :: "'n notice \<Rightarrow> 'n state \<Rightarrow> 'n state" where
  "display n s = s\<lparr>shown := shown s @ [n]\<rparr>"

text \<open>The Population: \<^verbatim>\<open>USERS\<close> with each address replaced by the object it refers to.\<close>

definition population :: "'n state \<Rightarrow> (string \<times> 'n user) list" where
  "population s =
     concat (map (\<lambda>(name, a). case obj_at s a of None \<Rightarrow> [] | Some u \<Rightarrow> [(name, u)]) (USERS s))"

text \<open>\<^verbatim>\<open>USERS.get(name)\<close>, as the object it refers to.\<close>

definition account :: "'n state \<Rightarrow> string \<Rightarrow> 'n user option" where
  "account s name = (case dict_get (USERS s) name of None \<Rightarrow> None | Some a \<Rightarrow> obj_at s a)"

text \<open>\<^verbatim>\<open>save_users(USERS)\<close> as a step of the state.\<close>

definition save_USERS :: "'n state \<Rightarrow> 'n state" where
  "save_USERS s = s\<lparr>DATA_FILE := save_users (population s)\<rparr>"

section \<open>Payment unlock flow\<close>

text \<open>
  The request \<^verbatim>\<open>create_stripe_checkout_session\<close> sends, and the function itself.
  \<open>stripe\<close> is \<^verbatim>\<open>stripe.checkout.Session.create\<close> followed by reading \<^verbatim>\<open>session.url\<close>:
  it raises or gives the URL. The function returns the state as it found it.
\<close>

record checkout_request =
  payment_method_types :: "string list"
  currency :: string
  product_name :: string
  unit_amount :: nat
  quantity :: nat
  mode :: string
  success_url :: string
  cancel_url :: string
  customer_email :: string
  request_metadata :: "(string \<times> string) list"

definition checkout_request_for :: "string \<Rightarrow> string \<Rightarrow> checkout_request" where
  "checkout_request_for user_email name =
     \<lparr>payment_method_types = [''card''],
      currency = ''usd'',
      product_name = ''Trade with Laiba Premium'',
      unit_amount = 500,
      quantity = 1,
      mode = ''payment'',
      success_url = ''https://trade-with-laiba.streamlit.app/?status=success'',
      cancel_url = ''https://trade-with-laiba.streamlit.app/?status=cancel'',
      customer_email = user_email,
      request_metadata = [(''username'', name)]\<rparr>"

definition create_stripe_checkout_session ::
    "(checkout_request \<Rightarrow> py_error + string) \<Rightarrow> string \<Rightarrow> 'n state \<Rightarrow>
     (py_error + string) \<times> 'n state" where
  "create_stripe_checkout_session stripe user_email s =
     (case session_user s of
        None \<Rightarrow> (Inl AttributeError, s)
      | Some a \<Rightarrow>
          (case obj_at s a of
             None \<Rightarrow> (Inl AttributeError, s)
           | Some u \<Rightarrow> (stripe (checkout_request_for user_email (username u)), s)))"

text \<open>A payment intent, as far as \<^verbatim>\<open>check_payment_and_unlock\<close> reads it.\<close>

record payment =
  status :: string
  metadata :: "(string \<times> string) list"

text \<open>The loop of \<^verbatim>\<open>check_payment_and_unlock\<close> over \<^verbatim>\<open>payments.data\<close>.\<close>

fun unlock_scan ::
    "'n arith \<Rightarrow> payment list \<Rightarrow> string \<Rightarrow> 'n state \<Rightarrow> bool \<times> 'n state" where
  "unlock_scan ar [] name s = (False, s)"
| "unlock_scan ar (p # ps) name s =
     (if status p = ''succeeded'' \<and> dict_get (metadata p) ''username'' = Some name
      then (case dict_get (USERS s) name of
              None \<Rightarrow> unlock_scan ar ps name s
            | Some a \<Rightarrow>
                (case obj_at s a of
                   None \<Rightarrow> unlock_scan ar ps name s
                 | Some u \<Rightarrow>
                     if \<not> premium_unlocked u
                     then (True,
                           save_USERS
                             (set_obj a
                                (u\<lparr>premium_unlocked := True, account_type := ''real'',
                                   balance := py_int ar 100\<rparr>) s))
                     else unlock_scan ar ps name s))
      else unlock_scan ar ps name s)"

text \<open>
  \<^verbatim>\<open>check_payment_and_unlock(username)\<close>; \<open>payments\<close> is what
  \<^verbatim>\<open>stripe.payment_intents.list(limit=20)\<close> does: it raises or gives the list.
\<close>

definition check_payment_and_unlock ::
    "'n arith \<Rightarrow> string \<Rightarrow> py_error + payment list \<Rightarrow> 'n state \<Rightarrow> bool \<times> 'n state" where
  "check_payment_and_unlock ar name payments s =
     (case payments of
        Inl e \<Rightarrow> (False, display (StripeApiError e) s)
      | Inr ps \<Rightarrow> unlock_scan ar ps name s)"

section \<open>The page: one button per run\<close>

text \<open>
  The handler of "Login / Create Account". \<open>hashpw\<close> and \<open>checkpw\<close> are bcrypt's, \<open>salt\<close>
  is what \<^verbatim>\<open>bcrypt.gensalt()\<close> gives.
\<close>

definition login_or_create ::
    "'n arith \<Rightarrow> (string \<Rightarrow> string \<Rightarrow> string) \<Rightarrow> (string \<Rightarrow> string \<Rightarrow> py_error + bool) \<Rightarrow>
     string \<Rightarrow> string \<Rightarrow> string \<Rightarrow> string \<Rightarrow> string \<Rightarrow> 'n state \<Rightarrow> 'n state" where
  "login_or_create ar hashpw checkpw salt name password email atype s =
     (if \<not> dict_has (USERS s) name
      then (if password = []
            then save_USERS (display RegisterNeedsPassword s)
            else (let hashed_pw = hashpw password salt;
                      (a, s1) = new_obj (User ar name atype (Some hashed_pw)) s;
                      s2 = save_USERS (s1\<lparr>USERS := dict_set (USERS s1) name a\<rparr>);
                      s3 = s2\<lparr>session_user := Some a, session_email := Some email\<rparr>
                  in save_USERS (display (AccountCreated name) s3)))
      else (case dict_get (USERS s) name of
              None \<Rightarrow> s
            | Some a \<Rightarrow>
                (case obj_at s a of
                   None \<Rightarrow> s
                 | Some u \<Rightarrow>
                     (case hashed_password u of
                        None \<Rightarrow> save_USERS (display IncorrectPassword s)
                      | Some h \<Rightarrow>
                          if h = [] then save_USERS (display IncorrectPassword s)
                          else (case checkpw password h of
                                  Inl e \<Rightarrow> display (Uncaught e) s
                                | Inr ok \<Rightarrow>
                                    if ok
                                    then save_USERS
                                           (display (WelcomeBack name)
                                              (s\<lparr>session_user := Some a,
                                                 session_email := Some email\<rparr>))
                                    else save_USERS (display IncorrectPassword s))))))"

text \<open>
  The handlers of the dashboard, which is rendered only when a user is in the session:
  "Place Trade", "Unlock Now with Stripe ($5)" and "Verify Payment".
\<close>

definition place_trade_click ::
    "'n arith \<Rightarrow> ('n, 'f) world \<Rightarrow> 'n \<Rightarrow> string \<Rightarrow> 'n state \<Rightarrow> 'n state" where
  "place_trade_click ar w amt pred s =
     (case session_user s of
        None \<Rightarrow> display PleaseLogIn s
      | Some a \<Rightarrow>
          (case obj_at s a of
             None \<Rightarrow> s
           | Some u \<Rightarrow>
               if py_lt ar (balance u) (py_one ar) then display NeedOneDollar s
               else (let ((won, res, delta), u1) = place_trade ar w amt pred u;
                         s1 = set_obj a u1 s
                     in save_USERS
                          (display (if won then Won res delta else Lost res (py_neg ar delta)) s1))))"

definition checkout_click ::
    "(checkout_request \<Rightarrow> py_error + string) \<Rightarrow> string \<Rightarrow> 'n state \<Rightarrow> 'n state" where
  "checkout_click stripe email s =
     (case session_user s of
        None \<Rightarrow> display PleaseLogIn s
      | Some a \<Rightarrow>
          (case obj_at s a of
             None \<Rightarrow> s
           | Some u \<Rightarrow>
               if \<not> premium_unlocked u
               then (if email = [] then display EnterEmail s
                     else (case create_stripe_checkout_session stripe email s of
                             (Inl e, s1) \<Rightarrow> display (SessionError e) s1
                           | (Inr url, s1) \<Rightarrow> display (CheckoutLink url) s1))
               else display AlreadyPremium s))"

definition verify_click :: "'n arith \<Rightarrow> py_error + payment list \<Rightarrow> 'n state \<Rightarrow> 'n state" where
  "verify_click ar payments s =
     (case session_user s of
        None \<Rightarrow> display PleaseLogIn s
      | Some a \<Rightarrow>
          (case obj_at s a of
             None \<Rightarrow> s
           | Some u \<Rightarrow>
               if \<not> premium_unlocked u
               then (let (ok, s1) = check_payment_and_unlock ar (username u) payments s
                     in display (if ok then PaymentConfirmed else NoPaymentFound) s1)
               else display AlreadyPremium s))"

text \<open>
  The in-memory operations, and a run of them: the handlers called one after the other on
  the same objects, with nothing read back from the file in between.
\<close>

datatype ('n, 'f) event =
    Login string string string string string
  | PlaceTrade "('n, 'f) world" 'n string
  | Checkout "checkout_request \<Rightarrow> py_error + string" string
  | Verify "py_error + payment list"

fun step ::
    "'n arith \<Rightarrow> (string \<Rightarrow> string \<Rightarrow> string) \<Rightarrow> (string \<Rightarrow> string \<Rightarrow> py_error + bool) \<Rightarrow>
     ('n, 'f) event \<Rightarrow> 'n state \<Rightarrow> 'n state" where
  "step ar hashpw checkpw (Login salt name password email atype) s =
     login_or_create ar hashpw checkpw salt name password email atype s"
| "step ar hashpw checkpw (PlaceTrade w amt pred) s = place_trade_click ar w amt pred s"
| "step ar hashpw checkpw (Checkout stripe email) s = checkout_click stripe email s"
| "step ar hashpw checkpw (Verify payments) s = verify_click ar payments s"

fun run ::
    "'n arith \<Rightarrow> (string \<Rightarrow> string \<Rightarrow> string) \<Rightarrow> (string \<Rightarrow> string \<Rightarrow> py_error + bool) \<Rightarrow>
     ('n, 'f) event list \<Rightarrow> 'n state \<Rightarrow> 'n state" where
  "run ar hashpw checkpw [] s = s"
| "run ar hashpw checkpw (e # es) s = run ar hashpw checkpw es (step ar hashpw checkpw e s)"

text \<open>
  The page itself executes the script from its first line on every click. Line 176,
  \<^verbatim>\<open>USERS = load_users()\<close>, then binds \<^verbatim>\<open>USERS\<close> to new objects read from the file,
  while \<^verbatim>\<open>st.session_state\<close> keeps the object it holds. \<open>reload\<close> is that line,
  \<open>click\<close> one execution of the script with one button pressed, \<open>clicks\<close> a sequence
  of them. When \<^verbatim>\<open>load_users\<close> raises, the execution ends there.
\<close>

fun bind_users :: "(string \<times> 'n user) list \<Rightarrow> 'n state \<Rightarrow> 'n state" where
  "bind_users [] s = s"
| "bind_users ((name, u) # rest) s =
     (let (a, s1) = new_obj u s
      in bind_users rest (s1\<lparr>USERS := dict_set (USERS s1) name a\<rparr>))"

definition reload :: "'n arith \<Rightarrow> 'n state \<Rightarrow> py_error + 'n state" where
  "reload ar s =
     (case load_users ar (DATA_FILE s) of
        Inl e \<Rightarrow> Inl e
      | Inr users \<Rightarrow> Inr (bind_users users (s\<lparr>USERS := []\<rparr>)))"

definition click ::
    "'n arith \<Rightarrow> (string \<Rightarrow> string \<Rightarrow> string) \<Rightarrow> (string \<Rightarrow> string \<Rightarrow> py_error + bool) \<Rightarrow>
     ('n, 'f) event \<Rightarrow> 'n state \<Rightarrow> 'n state" where
  "click ar hashpw checkpw e s =
     (case reload ar s of
        Inl err \<Rightarrow> display (Uncaught err) s
      | Inr s1 \<Rightarrow> step ar hashpw checkpw e s1)"

fun clicks ::
    "'n arith \<Rightarrow> (string \<Rightarrow> string \<Rightarrow> string) \<Rightarrow> (string \<Rightarrow> string \<Rightarrow> py_error + bool) \<Rightarrow>
     ('n, 'f) event list \<Rightarrow> 'n state \<Rightarrow> 'n state" where
  "clicks ar hashpw checkpw [] s = s"
| "clicks ar hashpw checkpw (e # es) s =
     clicks ar hashpw checkpw es (click ar hashpw checkpw e s)"

section \<open>Properties of an account\<close>

text \<open>
  The balance-history invariant: the history has a last entry and its balance is the
  current balance.
\<close>

definition history_current :: "'n user \<Rightarrow> bool" where
  "history_current u = (history u \<noteq> [] \<and> snap_balance (last (history u)) = balance u)"

section \<open>An arithmetic: IEEE 754 doubles\<close>

text \<open>
  A finite double is the real number it denotes. \<open>round_double\<close> rounds a real to the
  nearest double, ties to the even significand: 53 bits, the exponent of the smallest
  normal number for everything below it. Infinities, NaN and the overflow beyond the
  largest double are not represented; this arithmetic is used on the examples, which stay
  far inside the range.
\<close>

fun bit_length :: "nat \<Rightarrow> nat" where
  "bit_length n = (if n = 0 then 0 else Suc (bit_length (n div 2)))"

declare bit_length.simps [simp del]

text \<open>The exponent \<open>e\<close> with \<open>2 ^ e \<le> \<bar>x\<bar> < 2 ^ (e + 1)\<close>, for \<open>x\<close> other than 0.\<close>

definition exponent_of :: "real \<Rightarrow> int" where
  "exponent_of x =
     (if 1 \<le> \<bar>x\<bar> then int (bit_length (nat \<lfloor>\<bar>x\<bar>\<rfloor>)) - 1
      else - int (bit_length (nat (\<lceil>1 / \<bar>x\<bar>\<rceil> - 1))))"

definition pow2 :: "int \<Rightarrow> real" where
  "pow2 k = (if 0 \<le> k then 2 ^ nat k else 1 / 2 ^ nat (- k))"

definition round_half_even :: "real \<Rightarrow> int" where
  "round_half_even r =
     (let f = \<lfloor>r\<rfloor>; d = r - of_int f
      in if d < 1 / 2 then f else if 1 / 2 < d then f + 1 else if even f then f else f + 1)"

definition round_double :: "real \<Rightarrow> real" where
  "round_double x =
     (if x = 0 then 0
      else (let e = max (exponent_of x) (- 1022); u = pow2 (e - 52)
            in of_int (round_half_even (x / u)) * u))"

text \<open>
  Python on doubles: an int literal of the program is the double of the same value, the
  literal \<^verbatim>\<open>0.9\<close> is the double nearest to nine tenths, a sum and a product are rounded,
  the negation is exact.
\<close>

definition double_arith :: "real arith" where
  "double_arith =
     \<lparr>py_int = of_int,
      py_point_nine = round_double (9 / 10),
      py_one = 1,
      py_add = (\<lambda>a b. round_double (a + b)),
      py_mul = (\<lambda>a b. round_double (a * b)),
      py_neg = uminus,
      py_lt = (\<lambda>a b. a < b)\<rparr>"

section \<open>Example inputs\<close>

text \<open>
  The state before anything happened; stand-ins for bcrypt; a stand-in for \<^verbatim>\<open>float\<close>,
  right on a number and on a string of decimal digits with at most one point, and
  answering ValueError on every other string, where Python accepts more (a sign, an
  exponent, spaces, inf, nan); a world in which the provider is unreachable and the number
  drawn is 1; the same world with a body whose latest close is above the previous one; a
  succeeded payment for alice.
\<close>

definition initial_state :: "real state" where
  "initial_state =
     \<lparr>heap = [], USERS = [], session_user = None, session_email = None,
      DATA_FILE = NoFile, shown = []\<rparr>"

definition example_hashpw :: "string \<Rightarrow> string \<Rightarrow> string" where
  "example_hashpw password salt = salt @ password"

definition example_checkpw :: "string \<Rightarrow> string \<Rightarrow> py_error + bool" where
  "example_checkpw password h = Inr (drop 2 h = password)"

definition digit_of :: "char \<Rightarrow> nat option" where
  "digit_of c =
     (if c = CHR ''0'' then Some 0 else if c = CHR ''1'' then Some 1
      else if c = CHR ''2'' then Some 2 else if c = CHR ''3'' then Some 3
      else if c = CHR ''4'' then Some 4 else if c = CHR ''5'' then Some 5
      else if c = CHR ''6'' then Some 6 else if c = CHR ''7'' then Some 7
      else if c = CHR ''8'' then Some 8 else if c = CHR ''9'' then Some 9
      else None)"

text \<open>
  \<open>decimal acc seen places s\<close> reads the rest \<open>s\<close> of a decimal numeral: \<open>acc\<close> is the
  value of the digits read so far taken as an integer, \<open>seen\<close> whether a digit was read,
  \<open>places\<close> the number of digits read after the point (None before the point).
\<close>

fun decimal :: "nat \<Rightarrow> bool \<Rightarrow> nat option \<Rightarrow> string \<Rightarrow> real option" where
  "decimal acc seen places [] =
     (if seen then Some (of_nat acc / 10 ^ (case places of None \<Rightarrow> 0 | Some k \<Rightarrow> k)) else None)"
| "decimal acc seen places (c # cs) =
     (if c = CHR ''.''
      then (case places of None \<Rightarrow> decimal acc seen (Some 0) cs | Some k \<Rightarrow> None)
      else (case digit_of c of
              None \<Rightarrow> None
            | Some v \<Rightarrow> decimal (10 * acc + v) True (map_option Suc places) cs))"

definition example_float :: "real json \<Rightarrow> py_error + real" where
  "example_float x =
     (case x of
        JNum n \<Rightarrow> Inr n
      | JStr s \<Rightarrow> (case decimal 0 False None s of
                     None \<Rightarrow> Inl ValueError
                   | Some v \<Rightarrow> Inr (round_double v))
      | JBool b \<Rightarrow> Inr (if b then 1 else 0)
      | _ \<Rightarrow> Inl TypeError)"

definition offline_world :: "(real, real) world" where
  "offline_world =
     \<lparr>w_float = example_float, w_gt = (\<lambda>a b. a > b), w_fetch = RequestFailed,
      w_draw = 1, w_now = ''2024-01-01 10:00:00''\<rparr>"

definition rising_body :: "real json" where
  "rising_body =
     JObj [(''Meta Data'', JObj []),
           (''Time Series (1min)'',
            JObj [(''2024-01-01 10:01:00'',
                   JObj [(''1. open'', JStr ''470.2500''), (''4. close'', JStr ''471.0000'')]),
                  (''2024-01-01 10:00:00'',
                   JObj [(''1. open'', JStr ''469.5000''), (''4. close'', JStr ''470.2500'')])])]"

definition rising_world :: "(real, real) world" where
  "rising_world = offline_world\<lparr>w_fetch := Body rising_body, w_now := ''2024-01-01 10:02:00''\<rparr>"

text \<open>A payment provider that refuses an email address without an at sign.\<close>

definition example_stripe :: "checkout_request \<Rightarrow> py_error + string" where
  "example_stripe req =
     (if CHR ''@'' \<in> set (customer_email req)
      then Inr (''https://checkout.stripe.com/c/pay/'' @ snd (hd (request_metadata req)))
      else Inl (ProviderError ''Invalid email address''))"

definition alice_paid :: payment where
  "alice_paid = \<lparr>status = ''succeeded'', metadata = [(''username'', ''alice'')]\<rparr>"

text \<open>alice, a demo account, after one lost trade of 100; and the state that holds her.\<close>

definition alice :: "real user" where
  "alice =
     \<lparr>username = ''alice'', account_type = ''demo'', hashed_password = Some ''s1pw'',
      balance = 9900,
      trades = [\<lparr>amount = 100, prediction = ''up'', result = ''down''\<rparr>],
      history = [\<lparr>timestamp = ''2024-01-01 10:00:00'', snap_balance = 9900\<rparr>],
      premium_unlocked = False\<rparr>"

definition alice_state :: "real state" where
  "alice_state =
     \<lparr>heap = [alice], USERS = [(''alice'', 0)], session_user = Some 0,
      session_email = Some ''alice@example.com'',
      DATA_FILE = save_users [(''alice'', alice)], shown = []\<rparr>"

text \<open>bob, a record migrated without a credential.\<close>

definition bob :: "real user" where
  "bob = (User double_arith ''bob'' ''real'' None)\<lparr>balance := 25\<rparr>"

definition bob_state :: "real state" where
  "bob_state =
     \<lparr>heap = [bob], USERS = [(''bob'', 0)], session_user = None, session_email = None,
      DATA_FILE = save_users [(''bob'', bob)], shown = []\<rparr>"

section \<open>Auxiliary facts\<close>

lemma labels_distinct:
  "label_pro \<noteq> label_intermediate" "label_pro \<noteq> label_beginner"
  "label_intermediate \<noteq> label_beginner" "label_intermediate \<noteq> label_pro"
  "label_beginner \<noteq> label_pro" "label_beginner \<noteq> label_intermediate"
  by (simp_all add: label_pro_def label_intermediate_def label_beginner_def)

lemma random_choice_up_down:
  "random_choice r [''up'', ''down''] = (if r mod 2 = 0 then ''up'' else ''down'')"
proof -
  have "r mod 2 = 0 \<or> r mod 2 = 1" by presburger
  then show ?thesis
    by (auto simp: random_choice_def simp flip: numeral_2_eq_2)
qed

lemma fetch_trend_up_down: "fetch_trend py_float gt f = Inr t \<Longrightarrow> t = ''up'' \<or> t = ''down''"
  by (auto simp: fetch_trend_def split: fetch.splits sum.splits json.splits list.splits if_splits)

lemma place_trade_result:
  "place_trade ar w amt pred u = ((won, res, delta), u') \<Longrightarrow>
   res = get_market_result w \<and> won = (pred = res) \<and>
   delta = (if pred = res then py_mul ar amt (py_point_nine ar) else py_neg ar amt) \<and>
   u' = update_balance ar (w_now w) delta (u\<lparr>trades := trades u @ [Trade amt pred res]\<rparr>)"
  by (auto simp: place_trade_def Let_def is_win_def Trade_def split: if_splits)

lemma update_balance_fields:
  "balance (update_balance ar now d u) = py_add ar (balance u) d"
  "trades (update_balance ar now d u) = trades u"
  "premium_unlocked (update_balance ar now d u) = premium_unlocked u"
  "account_type (update_balance ar now d u) = account_type u"
  "history (update_balance ar now d u)
     = history u @ [\<lparr>timestamp = now, snap_balance = py_add ar (balance u) d\<rparr>]"
  by (simp_all add: update_balance_def Let_def)

lemma update_balance_history_current: "history_current (update_balance ar now d u)"
  by (simp add: history_current_def update_balance_def Let_def)

lemma place_trade_history_current: "history_current (snd (place_trade ar w amt pred u))"
  by (simp add: place_trade_def Let_def update_balance_history_current)

lemma place_trade_keeps:
  "place_trade ar w amt pred u = (r, u') \<Longrightarrow>
   premium_unlocked u' = premium_unlocked u \<and> account_type u' = account_type u"
  by (auto simp: place_trade_def Let_def update_balance_fields split: if_splits)

subsection \<open>Persistence\<close>

lemma Trade_kwargs_trade_vars: "Trade_kwargs (trade_vars t) = Inr t"
  by (simp add: Trade_kwargs_def trade_vars_def trade_params_def dict_has_def subscript_def
      dict_get_def bind_err_def as_num_def as_str_def Trade_def)

lemma collect_inverse: "(\<And>x. f (g x) = Inr x) \<Longrightarrow> collect f (map g xs) = Inr xs"
  by (induction xs) (simp_all add: bind_err_def)

lemma load_snapshot_dict: "load_snapshot (snapshot_dict h) = Inr h"
  by (simp add: load_snapshot_def snapshot_dict_def)

lemma load_user_info: "load_user ar name (user_info u) = Inr (u\<lparr>username := name\<rparr>)"
  by (cases "hashed_password u")
     (simp_all add: load_user_def user_info_def subscript_def dict_get_def bind_err_def
        as_str_def as_num_def load_hashed_password_def as_str_or_none_def load_trades_def
        load_history_def load_premium_def as_bool_def User_def
        collect_inverse[of Trade_kwargs trade_vars, OF Trade_kwargs_trade_vars]
        collect_inverse[of load_snapshot snapshot_dict, OF load_snapshot_dict])

lemma dict_set_fresh: "k \<notin> fst ` set d \<Longrightarrow> dict_set d k v = d @ [(k, v)]"
  by (induction d) auto

lemma dict_get_dict_set_other: "k \<noteq> k' \<Longrightarrow> dict_get (dict_set d k' v) k = dict_get d k"
  by (induction d) (auto simp: dict_get_def)

lemma load_items_user_info:
  "distinct (map fst acc @ map fst users) \<Longrightarrow>
   load_items ar (map (\<lambda>(name, u). (name, user_info u)) users) acc
     = Inr (acc @ map (\<lambda>(name, u). (name, u\<lparr>username := name\<rparr>)) users)"
proof (induction users arbitrary: acc)
  case Nil
  then show ?case by simp
next
  case (Cons x users)
  obtain name u where x: "x = (name, u)" by (cases x)
  from Cons.prems x have fresh: "name \<notin> fst ` set acc" by auto
  from Cons.prems x
  have d: "distinct (map fst (acc @ [(name, u\<lparr>username := name\<rparr>)]) @ map fst users)"
    by auto
  show ?case using Cons.IH[OF d]
    by (simp add: x load_user_info bind_err_def dict_set_fresh[OF fresh])
qed

lemma rekey_id:
  "\<forall>(name, u) \<in> set users. username u = name \<Longrightarrow>
   map (\<lambda>(name, u). (name, u\<lparr>username := name\<rparr>)) users = users"
  by (induction users) auto

lemma load_user_null_credential:
  assumes "load_user ar name (JObj d) = Inr v"
      and "dict_get d ''hashed_password'' = None \<or> dict_get d ''hashed_password'' = Some JNull"
  shows "hashed_password v = None"
  using assms
  by (auto simp: load_user_def bind_err_def load_hashed_password_def as_str_or_none_def
      split: sum.splits)

subsection \<open>The store\<close>

lemma save_USERS_fields:
  "heap (save_USERS s) = heap s" "USERS (save_USERS s) = USERS s"
  "session_user (save_USERS s) = session_user s" "session_email (save_USERS s) = session_email s"
  "shown (save_USERS s) = shown s" "obj_at (save_USERS s) a = obj_at s a"
  by (simp_all add: save_USERS_def obj_at_def)

lemma display_fields:
  "heap (display n s) = heap s" "USERS (display n s) = USERS s"
  "session_user (display n s) = session_user s" "session_email (display n s) = session_email s"
  "DATA_FILE (display n s) = DATA_FILE s"
  "obj_at (display n s) a = obj_at s a" "shown (display n s) = shown s @ [n]"
  by (simp_all add: display_def obj_at_def)

lemma obj_at_fields:
  "obj_at (s\<lparr>USERS := x\<rparr>) a = obj_at s a"
  "obj_at (s\<lparr>session_user := y\<rparr>) a = obj_at s a"
  "obj_at (s\<lparr>session_email := z\<rparr>) a = obj_at s a"
  by (simp_all add: obj_at_def)

lemma set_obj_fields:
  "USERS (set_obj a u s) = USERS s" "session_user (set_obj a u s) = session_user s"
  "DATA_FILE (set_obj a u s) = DATA_FILE s" "shown (set_obj a u s) = shown s"
  by (simp_all add: set_obj_def)

lemmas state_fields = save_USERS_fields display_fields obj_at_fields set_obj_fields

lemma obj_at_set_obj_Some:
  "obj_at s b = Some v \<Longrightarrow> obj_at (set_obj a u s) b = Some (if b = a then u else v)"
  by (auto simp: obj_at_def set_obj_def split: if_splits)

lemma obj_at_shown: "obj_at (s\<lparr>shown := ns\<rparr>) a = obj_at s a"
  by (simp add: obj_at_def)

lemma population_shown: "population (s\<lparr>shown := ns\<rparr>) = population s"
  by (simp add: population_def obj_at_shown)

subsection \<open>Payment verification\<close>

lemma unlock_scan_keeps:
  "obj_at s a = Some u \<Longrightarrow> premium_unlocked u \<Longrightarrow>
   \<exists>u'. obj_at (snd (unlock_scan ar ps name s)) a = Some u' \<and> premium_unlocked u' \<and>
        (account_type u = ''real'' \<longrightarrow> account_type u' = ''real'')"
  by (induction ps) (auto simp: obj_at_set_obj_Some state_fields split: option.splits if_splits)

lemma unlock_scan_USERS: "unlock_scan ar ps name s = (ok, s1) \<Longrightarrow> USERS s1 = USERS s"
  by (induction ps) (auto simp: state_fields split: option.splits if_splits)

lemma unlock_scan_unlocked:
  "dict_get (USERS s) name = Some a \<Longrightarrow> obj_at s a = Some u \<Longrightarrow> premium_unlocked u \<Longrightarrow>
   unlock_scan ar ps name s = (False, s)"
  by (induction ps) (auto split: option.splits)

lemma unlock_scan_True:
  "unlock_scan ar ps name s = (True, s1) \<Longrightarrow>
   \<exists>a u. dict_get (USERS s) name = Some a \<and> obj_at s a = Some u \<and> \<not> premium_unlocked u \<and>
      s1 = save_USERS (set_obj a (u\<lparr>premium_unlocked := True, account_type := ''real'',
                                    balance := py_int ar 100\<rparr>) s)"
  by (induction ps) (auto split: option.splits if_splits)

lemma check_payment_keeps:
  "obj_at s a = Some u \<Longrightarrow> premium_unlocked u \<Longrightarrow>
   \<exists>u'. obj_at (snd (check_payment_and_unlock ar name payments s)) a = Some u' \<and>
        premium_unlocked u' \<and> (account_type u = ''real'' \<longrightarrow> account_type u' = ''real'')"
  using unlock_scan_keeps[of s a u ar]
  by (cases payments) (auto simp: check_payment_and_unlock_def state_fields)

subsection \<open>One step and a run\<close>

lemma login_keeps:
  "obj_at s a = Some u \<Longrightarrow>
   obj_at (login_or_create ar hashpw checkpw salt name password email atype s) a = Some u"
  by (auto simp: login_or_create_def Let_def new_obj_def state_fields obj_at_def nth_append
      split: option.splits sum.splits prod.splits if_splits)

lemma place_trade_click_keeps:
  "obj_at s a = Some u \<Longrightarrow> premium_unlocked u \<Longrightarrow>
   \<exists>u'. obj_at (place_trade_click ar w amt pred s) a = Some u' \<and> premium_unlocked u' \<and>
        (account_type u = ''real'' \<longrightarrow> account_type u' = ''real'')"
  by (auto simp: place_trade_click_def Let_def obj_at_set_obj_Some state_fields
      dest: place_trade_keeps split: option.splits prod.splits)

lemma checkout_click_keeps: "obj_at (checkout_click stripe email s) a = obj_at s a"
  by (auto simp: checkout_click_def create_stripe_checkout_session_def state_fields
      split: option.splits sum.splits prod.splits)

lemma verify_click_keeps:
  assumes a: "obj_at s a = Some u" "premium_unlocked u"
  shows "\<exists>u'. obj_at (verify_click ar payments s) a = Some u' \<and> premium_unlocked u' \<and>
           (account_type u = ''real'' \<longrightarrow> account_type u' = ''real'')"
proof (cases "session_user s")
  case None
  then show ?thesis using a by (simp add: verify_click_def state_fields)
next
  case session: (Some b)
  show ?thesis
  proof (cases "obj_at s b")
    case None
    then show ?thesis using a session by (simp add: verify_click_def)
  next
    case (Some v)
    show ?thesis
    proof (cases "premium_unlocked v")
      case True
      then show ?thesis using a Some session by (simp add: verify_click_def state_fields)
    next
      case False
      obtain ok s1 where c: "check_payment_and_unlock ar (username v) payments s = (ok, s1)"
        by (cases "check_payment_and_unlock ar (username v) payments s")
      from check_payment_keeps[OF a, of ar "username v" payments] c
      show ?thesis using Some session False by (simp add: verify_click_def state_fields)
    qed
  qed
qed

lemma step_keeps:
  "obj_at s a = Some u \<Longrightarrow> premium_unlocked u \<Longrightarrow>
   \<exists>u'. obj_at (step ar hashpw checkpw e s) a = Some u' \<and> premium_unlocked u' \<and>
        (account_type u = ''real'' \<longrightarrow> account_type u' = ''real'')"
  by (cases e)
     (simp_all add: login_keeps place_trade_click_keeps checkout_click_keeps verify_click_keeps)

lemma run_keeps:
  "obj_at s a = Some u \<Longrightarrow> premium_unlocked u \<Longrightarrow>
   \<exists>u'. obj_at (run ar hashpw checkpw es s) a = Some u' \<and> premium_unlocked u' \<and>
        (account_type u = ''real'' \<longrightarrow> account_type u' = ''real'')"
proof (induction es arbitrary: s u)
  case Nil
  then show ?case by simp
next
  case (Cons e es)
  from step_keeps[OF Cons.prems, of ar hashpw checkpw e] obtain u1 where
    u1: "obj_at (step ar hashpw checkpw e s) a = Some u1" "premium_unlocked u1"
        "account_type u = ''real'' \<longrightarrow> account_type u1 = ''real''"
    by blast
  from Cons.IH[OF u1(1,2)] u1(3) show ?case by auto
qed

lemma login_USERS:
  assumes g: "dict_get (USERS s) k = Some a"
  shows "dict_get (USERS (login_or_create ar hashpw checkpw salt name password email atype s)) k
           = Some a"
proof -
  have fresh: "dict_get (dict_set (USERS s) name b) k = Some a"
    if "\<not> dict_has (USERS s) name" for b
  proof -
    from that g have "k \<noteq> name" by (auto simp: dict_has_def dict_get_def)
    then show ?thesis using g by (simp add: dict_get_dict_set_other)
  qed
  show ?thesis using g fresh
    by (auto simp: login_or_create_def Let_def new_obj_def state_fields
        split: option.splits sum.splits prod.splits)
qed

lemma click_USERS:
  "USERS (place_trade_click ar w amt pred s) = USERS s"
  "USERS (checkout_click stripe email s) = USERS s"
  "USERS (verify_click ar payments s) = USERS s"
proof -
  show "USERS (place_trade_click ar w amt pred s) = USERS s"
    by (auto simp: place_trade_click_def Let_def state_fields split: option.splits prod.splits)
  show "USERS (checkout_click stripe email s) = USERS s"
    by (auto simp: checkout_click_def create_stripe_checkout_session_def state_fields
        split: option.splits prod.splits sum.splits)
  show "USERS (verify_click ar payments s) = USERS s"
    by (cases payments)
       (auto simp: verify_click_def check_payment_and_unlock_def Let_def state_fields
          dest: unlock_scan_USERS split: option.splits prod.splits)
qed

lemma step_USERS:
  "dict_get (USERS s) k = Some a \<Longrightarrow> dict_get (USERS (step ar hashpw checkpw e s)) k = Some a"
  by (cases e) (simp_all add: login_USERS click_USERS)

lemma run_USERS:
  "dict_get (USERS s) k = Some a \<Longrightarrow> dict_get (USERS (run ar hashpw checkpw es s)) k = Some a"
  by (induction es arbitrary: s) (simp_all add: step_USERS)

subsection \<open>The script run again\<close>

lemma bind_users_keeps:
  "obj_at s a = Some u \<Longrightarrow> obj_at (bind_users users s) a = Some u"
proof (induction users arbitrary: s)
  case Nil
  then show ?case by simp
next
  case (Cons x users)
  obtain name v where x: "x = (name, v)" by (cases x)
  have "obj_at ((snd (new_obj v s))\<lparr>USERS := dict_set (USERS (snd (new_obj v s))) name
          (fst (new_obj v s))\<rparr>) a = Some u"
    using Cons.prems by (auto simp: obj_at_def new_obj_def nth_append)
  from Cons.IH[OF this] show ?case by (simp add: x split_beta Let_def)
qed

lemma reload_keeps:
  "reload ar s = Inr s1 \<Longrightarrow> obj_at s a = Some u \<Longrightarrow> obj_at s1 a = Some u"
  using bind_users_keeps[of "s\<lparr>USERS := []\<rparr>" a u]
  by (auto simp: reload_def obj_at_fields split: sum.splits)

lemma click_keeps:
  assumes "obj_at s a = Some u" and "premium_unlocked u"
  shows "\<exists>u'. obj_at (click ar hashpw checkpw e s) a = Some u' \<and> premium_unlocked u'"
proof (cases "reload ar s")
  case (Inl err)
  with assms show ?thesis by (simp add: click_def display_fields)
next
  case (Inr s1)
  from reload_keeps[OF Inr assms(1)] step_keeps[of s1 a u ar hashpw checkpw e] assms(2) Inr
  show ?thesis by (auto simp: click_def)
qed

lemma clicks_keeps:
  "obj_at s a = Some u \<Longrightarrow> premium_unlocked u \<Longrightarrow>
   \<exists>u'. obj_at (clicks ar hashpw checkpw es s) a = Some u' \<and> premium_unlocked u'"
proof (induction es arbitrary: s u)
  case Nil
  then show ?case by simp
next
  case (Cons e es)
  from click_keeps[OF Cons.prems, of ar hashpw checkpw e] obtain u1 where
    u1: "obj_at (click ar hashpw checkpw e s) a = Some u1" "premium_unlocked u1"
    by blast
  from Cons.IH[OF u1] show ?case by simp
qed

subsection \<open>Evaluating the examples\<close>

lemma double_arith_fields:
  "py_int double_arith k = of_int k"
  "py_point_nine double_arith = round_double (9 / 10)"
  "py_one double_arith = 1"
  "py_add double_arith a b = round_double (a + b)"
  "py_mul double_arith a b = round_double (a * b)"
  "py_neg double_arith a = - a"
  "py_lt double_arith a b = (a < b)"
  by (simp_all add: double_arith_def)

lemmas round_double_eval =
  round_double_def exponent_of_def pow2_def round_half_even_def bit_length.simps

lemma double_point_nine: "round_double (9 / 10) = 8106479329266893 / 9007199254740992"
  by (simp add: round_double_eval Let_def)

lemmas double_eval = double_arith_fields double_point_nine round_double_eval

lemmas example_defs =
  initial_state_def example_hashpw_def example_checkpw_def example_float_def digit_of_def
  offline_world_def rising_body_def rising_world_def alice_paid_def alice_def alice_state_def
  example_stripe_def
  bob_def bob_state_def

lemmas engine_defs =
  place_trade_def get_market_result_def get_real_market_trend_def fetch_trend_def subscript_def
  dict_get_def dict_has_def random_choice_def is_win_def Trade_def update_balance_def User_def
  Let_def

lemmas store_defs =
  obj_at_def set_obj_def new_obj_def display_def population_def save_USERS_def save_users_def
  account_def
  user_info_def trade_vars_def snapshot_dict_def

lemmas load_defs =
  reload_def load_users_def load_user_def load_trades_def load_history_def load_snapshot_def
  load_hashed_password_def load_premium_def Trade_kwargs_def trade_params_def bind_err_def
  as_str_def as_num_def as_bool_def as_str_or_none_def

section \<open>The claims\<close>

text \<open>
  C1. The balance-history invariant is to hold after every committed mutation of an
  account's balance: after a trade and after a payment unlock, the last entry of the
  history is the current balance. \<^verbatim>\<open>update_balance\<close>, and with it every trade, keeps
  the invariant (\<open>place_trade_history_current\<close>). \<^verbatim>\<open>check_payment_and_unlock\<close> does
  not go through \<^verbatim>\<open>update_balance\<close>: it assigns the balance and saves. alice creates a
  demo account and loses a trade of 100, which leaves her history current at 9900. Then a
  succeeded payment is found for her: the call returns True, her balance is 100 in the
  store and in the file, and the last entry of her history is still 9900. The same
  happens on the page, where every click reads \<^verbatim>\<open>USERS\<close> back from the file: from a
  file that holds alice, the click on "Verify Payment" leaves the stored account with
  balance 100 and the history ending at 9900; from nothing, creating the account, placing
  the trade and verifying leaves the stored account with balance 100 and no history
  entry at all.
\<close>

theorem unlock_leaves_history_stale:
  "run double_arith example_hashpw example_checkpw
     [Login ''s1'' ''alice'' ''pw'' ''alice@example.com'' ''demo'',
      PlaceTrade offline_world 100 ''up''] initial_state
     = alice_state\<lparr>shown := [AccountCreated ''alice'', Lost ''down'' 100]\<rparr> \<and>
   snd (place_trade double_arith offline_world 100 ''up''
          (User double_arith ''alice'' ''demo'' (Some ''s1pw''))) = alice \<and>
   history_current alice \<and>
   fst (check_payment_and_unlock double_arith ''alice'' (Inr [alice_paid]) alice_state) \<and>
   map_option balance
     (obj_at (snd (check_payment_and_unlock double_arith ''alice'' (Inr [alice_paid])
                     alice_state)) 0)
     = Some 100 \<and>
   map_option (\<lambda>u. snap_balance (last (history u)))
     (obj_at (snd (check_payment_and_unlock double_arith ''alice'' (Inr [alice_paid])
                     alice_state)) 0)
     = Some 9900 \<and>
   map_option history_current
     (obj_at (snd (check_payment_and_unlock double_arith ''alice'' (Inr [alice_paid])
                     alice_state)) 0)
     = Some False \<and>
   DATA_FILE (snd (check_payment_and_unlock double_arith ''alice'' (Inr [alice_paid])
                     alice_state))
     = save_users [(''alice'', alice\<lparr>premium_unlocked := True, account_type := ''real'',
                                     balance := 100\<rparr>)] \<and>
   map_option (\<lambda>u. (balance u, map snap_balance (history u), history_current u))
     (account
        (click double_arith example_hashpw example_checkpw
           (Verify (Inr [alice_paid]) :: (real, real) event) alice_state) ''alice'')
     = Some (100, [9900], False) \<and>
   map_option (\<lambda>u. (balance u, map snap_balance (history u), history_current u))
     (account
        (clicks double_arith example_hashpw example_checkpw
           [Login ''s1'' ''alice'' ''pw'' ''alice@example.com'' ''demo'',
            PlaceTrade offline_world 100 ''up'',
            Verify (Inr [alice_paid])] initial_state) ''alice'')
     = Some (100, [], False)"
proof -
  have reach: "run double_arith example_hashpw example_checkpw
     [Login ''s1'' ''alice'' ''pw'' ''alice@example.com'' ''demo'',
      PlaceTrade offline_world 100 ''up''] initial_state
     = alice_state\<lparr>shown := [AccountCreated ''alice'', Lost ''down'' 100]\<rparr>"
    by (simp add: login_or_create_def place_trade_click_def example_defs store_defs engine_defs
        double_eval)
  have trade: "snd (place_trade double_arith offline_world 100 ''up''
                      (User double_arith ''alice'' ''demo'' (Some ''s1pw''))) = alice"
    by (simp add: example_defs engine_defs double_eval)
  have before: "history_current alice"
    using place_trade_history_current[of double_arith offline_world 100 "''up''"
            "User double_arith ''alice'' ''demo'' (Some ''s1pw'')"]
    by (simp only: trade)
  have after: "fst (check_payment_and_unlock double_arith ''alice'' (Inr [alice_paid]) alice_state) \<and>
     map_option balance
       (obj_at (snd (check_payment_and_unlock double_arith ''alice'' (Inr [alice_paid])
                       alice_state)) 0)
       = Some 100 \<and>
     map_option (\<lambda>u. snap_balance (last (history u)))
       (obj_at (snd (check_payment_and_unlock double_arith ''alice'' (Inr [alice_paid])
                       alice_state)) 0)
       = Some 9900 \<and>
     map_option history_current
       (obj_at (snd (check_payment_and_unlock double_arith ''alice'' (Inr [alice_paid])
                       alice_state)) 0)
       = Some False \<and>
     DATA_FILE (snd (check_payment_and_unlock double_arith ''alice'' (Inr [alice_paid])
                       alice_state))
       = save_users [(''alice'', alice\<lparr>premium_unlocked := True, account_type := ''real'',
                                       balance := 100\<rparr>)]"
    by (simp add: check_payment_and_unlock_def history_current_def example_defs store_defs
        dict_get_def double_arith_fields)
  have from_file: "map_option (\<lambda>u. (balance u, map snap_balance (history u), history_current u))
     (account
        (click double_arith example_hashpw example_checkpw
           (Verify (Inr [alice_paid]) :: (real, real) event) alice_state) ''alice'')
     = Some (100, [9900], False)"
    by (simp add: click_def verify_click_def check_payment_and_unlock_def history_current_def
        example_defs store_defs load_defs engine_defs double_arith_fields)
  have first_click: "click double_arith example_hashpw example_checkpw
       (Login ''s1'' ''alice'' ''pw'' ''alice@example.com'' ''demo'' :: (real, real) event)
       initial_state
     = \<lparr>heap = [User double_arith ''alice'' ''demo'' (Some ''s1pw'')],
        USERS = [(''alice'', 0)], session_user = Some 0,
        session_email = Some ''alice@example.com'',
        DATA_FILE = save_users [(''alice'', User double_arith ''alice'' ''demo'' (Some ''s1pw''))],
        shown = [AccountCreated ''alice'']\<rparr>"
    by (simp add: click_def login_or_create_def example_defs store_defs load_defs engine_defs)
  have second_click: "click double_arith example_hashpw example_checkpw
       (PlaceTrade offline_world 100 ''up'')
       \<lparr>heap = [User double_arith ''alice'' ''demo'' (Some ''s1pw'')],
        USERS = [(''alice'', 0)], session_user = Some 0,
        session_email = Some ''alice@example.com'',
        DATA_FILE = save_users [(''alice'', User double_arith ''alice'' ''demo'' (Some ''s1pw''))],
        shown = [AccountCreated ''alice'']\<rparr>
     = \<lparr>heap = [alice, User double_arith ''alice'' ''demo'' (Some ''s1pw'')],
        USERS = [(''alice'', 1)], session_user = Some 0,
        session_email = Some ''alice@example.com'',
        DATA_FILE = save_users [(''alice'', User double_arith ''alice'' ''demo'' (Some ''s1pw''))],
        shown = [AccountCreated ''alice'', Lost ''down'' 100]\<rparr>"
    by (simp add: click_def place_trade_click_def example_defs store_defs load_defs engine_defs
        double_eval)
  have third_click: "map_option (\<lambda>u. (balance u, map snap_balance (history u), history_current u))
     (account
        (click double_arith example_hashpw example_checkpw
           (Verify (Inr [alice_paid]) :: (real, real) event)
           \<lparr>heap = [alice, User double_arith ''alice'' ''demo'' (Some ''s1pw'')],
            USERS = [(''alice'', 1)], session_user = Some 0,
            session_email = Some ''alice@example.com'',
            DATA_FILE = save_users [(''alice'', User double_arith ''alice'' ''demo'' (Some ''s1pw''))],
            shown = [AccountCreated ''alice'', Lost ''down'' 100]\<rparr>) ''alice'')
     = Some (100, [], False)"
    by (simp add: click_def verify_click_def check_payment_and_unlock_def history_current_def
        example_defs store_defs load_defs engine_defs double_arith_fields)
  have from_nothing: "map_option (\<lambda>u. (balance u, map snap_balance (history u), history_current u))
     (account
        (clicks double_arith example_hashpw example_checkpw
           [Login ''s1'' ''alice'' ''pw'' ''alice@example.com'' ''demo'',
            PlaceTrade offline_world 100 ''up'',
            Verify (Inr [alice_paid])] initial_state) ''alice'')
     = Some (100, [], False)"
    by (simp only: clicks.simps first_click second_click third_click)
  from reach trade before after from_file from_nothing show ?thesis by blast
qed

text \<open>
  C2, as amended. For every trade placed, the returned outcome is the market result of the
  call and the won flag is true exactly when the prediction equals the outcome. On a loss
  the returned delta is the negation of the amount. On a win it is the product
  \<^verbatim>\<open>amount * 0.9\<close> as the program's arithmetic computes it: on doubles that is a rounded
  product of the amount and the double nearest to nine tenths, and not always nine tenths
  of the amount (a win with 13.0 returns 11.700000000000001). The delta returned is the
  delta added to the balance.
\<close>

theorem place_trade_delta_not_nine_tenths:
  "fst (place_trade double_arith rising_world 13 ''up'' (User double_arith ''alice'' ''demo'' None))
     = (True, ''up'', 6586514455029351 / 562949953421312) \<and>
   (6586514455029351 / 562949953421312 :: real) \<noteq> 9 / 10 * 13 \<and>
   (6586514455029351 / 562949953421312 :: real) \<noteq> round_double (9 / 10 * 13)"
proof -
  have "fst (place_trade double_arith rising_world 13 ''up''
               (User double_arith ''alice'' ''demo'' None))
          = (True, ''up'', round_double (13 * (8106479329266893 / 9007199254740992)))"
    by (simp add: engine_defs example_defs double_arith_fields double_point_nine)
       (simp add: round_double_eval)
  moreover have "round_double (13 * (8106479329266893 / 9007199254740992))
                   = 6586514455029351 / 562949953421312"
    by (simp add: round_double_eval)
  moreover have "round_double (9 / 10 * 13) = 3293257227514675 / 281474976710656"
    by (simp add: round_double_eval)
  ultimately show ?thesis by simp
qed

theorem place_trade_delta:
  assumes "place_trade ar w amt pred u = ((won, res, delta), u')"
  shows "res = get_market_result w \<and> (won \<longleftrightarrow> pred = res) \<and>
         (pred = res \<longrightarrow> delta = py_mul ar amt (py_point_nine ar)) \<and>
         (pred \<noteq> res \<longrightarrow> delta = py_neg ar amt) \<and>
         balance u' = py_add ar (balance u) delta"
  using place_trade_result[OF assms] by (simp add: update_balance_fields)

theorem place_trade_delta_witness:
  "place_trade double_arith rising_world 100 ''up'' (User double_arith ''alice'' ''demo'' None)
     = ((True, ''up'', 90),
        \<lparr>username = ''alice'', account_type = ''demo'', hashed_password = None,
           balance = 10090,
           trades = [\<lparr>amount = 100, prediction = ''up'', result = ''up''\<rparr>],
           history = [\<lparr>timestamp = ''2024-01-01 10:02:00'', snap_balance = 10090\<rparr>],
           premium_unlocked = False\<rparr>) \<and>
   ''up'' = get_market_result rising_world \<and>
   (90::real) = py_mul double_arith 100 (py_point_nine double_arith) \<and>
   (10090::real) = py_add double_arith (balance (User double_arith ''alice'' ''demo'' None)) 90"
proof -
  have run: "place_trade double_arith rising_world 100 ''up''
               (User double_arith ''alice'' ''demo'' None)
     = ((True, ''up'', 90),
        \<lparr>username = ''alice'', account_type = ''demo'', hashed_password = None,
           balance = 10090,
           trades = [\<lparr>amount = 100, prediction = ''up'', result = ''up''\<rparr>],
           history = [\<lparr>timestamp = ''2024-01-01 10:02:00'', snap_balance = 10090\<rparr>],
           premium_unlocked = False\<rparr>)"
    by (simp add: engine_defs example_defs double_arith_fields double_point_nine)
       (simp add: round_double_eval)
  from place_trade_delta[OF run] run show ?thesis by simp
qed

text \<open>
  C3, as amended. \<^verbatim>\<open>get_level\<close> depends on the length of the trade log only. It returns
  the Beginner label for 0 to 10 trades, the Intermediate label for 11 to 30 and the Pro
  label for 31 or more, where each label is an emoji, a space and the tier name; in the
  order Beginner, Intermediate, Pro it never decreases as the log grows. The label is not
  the bare tier name: a new account's level is not the string "Beginner".
\<close>

theorem get_level_not_bare_name:
  "get_level (User double_arith ''alice'' ''demo'' None) \<noteq> ''Beginner''"
  by (simp add: get_level_def User_def label_beginner_def)

theorem get_level_tiers:
  "get_level u =
     (if length (trades u) \<le> 10 then label_beginner
      else if length (trades u) \<le> 30 then label_intermediate
      else label_pro) \<and>
   drop 5 label_beginner = ''Beginner'' \<and>
   drop 5 label_intermediate = ''Intermediate'' \<and>
   drop 5 label_pro = ''Pro'' \<and>
   (length (trades u) = length (trades v) \<longrightarrow> get_level u = get_level v) \<and>
   (length (trades u) \<le> length (trades v) \<longrightarrow>
      level_rank (get_level u) \<le> level_rank (get_level v))"
  by (simp add: get_level_def Let_def level_rank_def labels_distinct)
     (simp add: label_pro_def label_intermediate_def label_beginner_def)

theorem get_level_tiers_witness:
  "length (trades alice) \<le> length (trades (alice\<lparr>trades := replicate 11 (Trade 1 ''up'' ''up'')\<rparr>)) \<and>
   get_level alice = label_beginner \<and>
   get_level (alice\<lparr>trades := replicate 11 (Trade 1 ''up'' ''up'')\<rparr>) = label_intermediate \<and>
   level_rank (get_level alice)
     \<le> level_rank (get_level (alice\<lparr>trades := replicate 11 (Trade 1 ''up'' ''up'')\<rparr>))"
  using get_level_tiers[of alice "alice\<lparr>trades := replicate 11 (Trade 1 ''up'' ''up'')\<rparr>"]
        get_level_tiers[of "alice\<lparr>trades := replicate 11 (Trade 1 ''up'' ''up'')\<rparr>" alice]
  by (auto simp: alice_def)

text \<open>
  C4, as amended. For every sequence of trades placed on an account, one after the other,
  the final balance is the initial balance with the returned deltas added to it one at a
  time, in the order of the trades, by the program's arithmetic. Every call returns one
  triple and appends one Trade, holding the amount, the prediction and the market result
  of that call, at the end of the trade log. On doubles every addition is rounded, so the
  final balance is the initial balance plus the sum of the deltas only up to rounding:
  wins with 1.0 and 2.0 from 10000 end at 10002.699999999999, while 10000 plus the sum of
  the two deltas is 10002.7.
\<close>

theorem place_trades_not_sum:
  "balance (snd (place_trades double_arith [(rising_world, 1, ''up''), (rising_world, 2, ''up'')]
                   (User double_arith ''alice'' ''demo'' None)))
     = 5499042479577497 / 549755813888 \<and>
   map delta_of (fst (place_trades double_arith
                        [(rising_world, 1, ''up''), (rising_world, 2, ''up'')]
                        (User double_arith ''alice'' ''demo'' None)))
     = [8106479329266893 / 9007199254740992, 8106479329266893 / 4503599627370496] \<and>
   py_add double_arith (balance (User double_arith ''alice'' ''demo'' None))
     (foldl (py_add double_arith) (py_int double_arith 0)
        [8106479329266893 / 9007199254740992, 8106479329266893 / 4503599627370496])
     = 2749521239788749 / 274877906944 \<and>
   (5499042479577497 / 549755813888 :: real) \<noteq> 2749521239788749 / 274877906944 \<and>
   (5499042479577497 / 549755813888 :: real)
     \<noteq> balance (User double_arith ''alice'' ''demo'' None)
         + sum_list [8106479329266893 / 9007199254740992, 8106479329266893 / 4503599627370496]"
proof -
  have trades: "place_trades double_arith [(rising_world, 1, ''up''), (rising_world, 2, ''up'')]
                  (User double_arith ''alice'' ''demo'' None)
     = ([(True, ''up'', 8106479329266893 / 9007199254740992),
         (True, ''up'', 8106479329266893 / 4503599627370496)],
        \<lparr>username = ''alice'', account_type = ''demo'', hashed_password = None,
           balance = 5499042479577497 / 549755813888,
           trades = [\<lparr>amount = 1, prediction = ''up'', result = ''up''\<rparr>,
                     \<lparr>amount = 2, prediction = ''up'', result = ''up''\<rparr>],
           history = [\<lparr>timestamp = ''2024-01-01 10:02:00'',
                        snap_balance = 5498052919112499 / 549755813888\<rparr>,
                      \<lparr>timestamp = ''2024-01-01 10:02:00'',
                        snap_balance = 5499042479577497 / 549755813888\<rparr>],
           premium_unlocked = False\<rparr>)"
    by (simp add: engine_defs example_defs double_arith_fields double_point_nine)
       (simp add: round_double_eval)
  have sum: "py_add double_arith (balance (User double_arith ''alice'' ''demo'' None))
     (foldl (py_add double_arith) (py_int double_arith 0)
        [8106479329266893 / 9007199254740992, 8106479329266893 / 4503599627370496])
     = 2749521239788749 / 274877906944"
    by (simp add: User_def double_arith_fields) (simp add: round_double_eval)
  have exact: "(5499042479577497 / 549755813888 :: real)
     \<noteq> balance (User double_arith ''alice'' ''demo'' None)
         + sum_list [8106479329266893 / 9007199254740992, 8106479329266893 / 4503599627370496]"
    by (simp add: User_def double_arith_fields)
  from trades sum exact show ?thesis by (simp add: delta_of_def)
qed

theorem place_trades_ledger:
  assumes "place_trades ar cs u = (rs, u')"
  shows "balance u' = foldl (py_add ar) (balance u) (map delta_of rs) \<and>
         length rs = length cs \<and>
         trades u' = trades u @ map (\<lambda>(w, amt, pred). Trade amt pred (get_market_result w)) cs \<and>
         length (trades u') = length (trades u) + length cs"
  using assms
proof (induction cs arbitrary: u rs u')
  case Nil
  then show ?case by simp
next
  case (Cons c cs)
  obtain w amt pred where c: "c = (w, amt, pred)" by (cases c)
  obtain won res delta u1 where s1: "place_trade ar w amt pred u = ((won, res, delta), u1)"
    by (cases "place_trade ar w amt pred u") auto
  obtain rs1 u2 where s2: "place_trades ar cs u1 = (rs1, u2)"
    by (cases "place_trades ar cs u1")
  from Cons.prems c s1 s2 have eq: "rs = (won, res, delta) # rs1" "u' = u2" by auto
  from place_trade_result[OF s1]
  have u1: "balance u1 = py_add ar (balance u) delta"
           "trades u1 = trades u @ [Trade amt pred (get_market_result w)]"
    by (simp_all add: update_balance_fields)
  from Cons.IH[OF s2] u1 eq c show ?case by (simp add: delta_of_def)
qed

theorem place_trades_ledger_witness:
  "place_trades double_arith [(offline_world, 100, ''up''), (rising_world, 50, ''up'')]
     (User double_arith ''alice'' ''demo'' None)
     = ([(False, ''down'', - 100), (True, ''up'', 45)],
        \<lparr>username = ''alice'', account_type = ''demo'', hashed_password = None,
           balance = 9945,
           trades = [\<lparr>amount = 100, prediction = ''up'', result = ''down''\<rparr>,
                     \<lparr>amount = 50, prediction = ''up'', result = ''up''\<rparr>],
           history = [\<lparr>timestamp = ''2024-01-01 10:00:00'', snap_balance = 9900\<rparr>,
                      \<lparr>timestamp = ''2024-01-01 10:02:00'', snap_balance = 9945\<rparr>],
           premium_unlocked = False\<rparr>) \<and>
   (9945::real) = foldl (py_add double_arith) (balance (User double_arith ''alice'' ''demo'' None))
                    (map delta_of [(False, ''down'', - 100), (True, ''up'', 45)])"
proof -
  have run: "place_trades double_arith [(offline_world, 100, ''up''), (rising_world, 50, ''up'')]
     (User double_arith ''alice'' ''demo'' None)
     = ([(False, ''down'', - 100), (True, ''up'', 45)],
        \<lparr>username = ''alice'', account_type = ''demo'', hashed_password = None,
           balance = 9945,
           trades = [\<lparr>amount = 100, prediction = ''up'', result = ''down''\<rparr>,
                     \<lparr>amount = 50, prediction = ''up'', result = ''up''\<rparr>],
           history = [\<lparr>timestamp = ''2024-01-01 10:00:00'', snap_balance = 9900\<rparr>,
                      \<lparr>timestamp = ''2024-01-01 10:02:00'', snap_balance = 9945\<rparr>],
           premium_unlocked = False\<rparr>)"
    by (simp add: engine_defs example_defs double_arith_fields double_point_nine)
       (simp add: round_double_eval)
  from place_trades_ledger[OF run] run show ?thesis by simp
qed

text \<open>
  C5. Saving a Population and loading the file back gives the same Population: the same
  usernames in the same order, and for each of them the same account type, balance,
  trades, history, hashed password and premium flag. The \<^verbatim>\<open>username\<close> attribute of a
  loaded account is the key it was stored under, so the whole Population is equal when
  every account is stored under its own username. A Population is a dict: its keys are
  distinct.
\<close>

theorem save_load_roundtrip:
  assumes "distinct (map fst users)"
  shows "load_users ar (save_users users)
           = Inr (map (\<lambda>(name, u). (name, u\<lparr>username := name\<rparr>)) users) \<and>
         ((\<forall>(name, u) \<in> set users. username u = name) \<longrightarrow>
            load_users ar (save_users users) = Inr users)"
proof -
  have "load_users ar (save_users users)
          = Inr (map (\<lambda>(name, u). (name, u\<lparr>username := name\<rparr>)) users)"
    using load_items_user_info[of "[]" users ar] assms
    by (simp add: load_users_def save_users_def)
  then show ?thesis by (simp add: rekey_id)
qed

theorem save_load_roundtrip_witness:
  "distinct (map fst [(''alice'', alice), (''bob'', bob)]) \<and>
   username alice = ''alice'' \<and> username bob = ''bob'' \<and>
   load_users double_arith (save_users [(''alice'', alice), (''bob'', bob)])
     = Inr [(''alice'', alice), (''bob'', bob)]"
proof -
  have d: "distinct (map fst [(''alice'', alice), (''bob'', bob)])" by simp
  have k: "\<forall>(name, u) \<in> set [(''alice'', alice), (''bob'', bob)]. username u = name"
    by (simp add: alice_def bob_def User_def)
  have n: "username alice = ''alice''" "username bob = ''bob''"
    by (simp_all add: alice_def bob_def User_def)
  from save_load_roundtrip[OF d, of double_arith] d k n show ?thesis by blast
qed

text \<open>
  C6. After \<^verbatim>\<open>check_payment_and_unlock\<close> has returned True for a username, the account
  stored under it is unlocked, real, and has balance 100. After any in-memory operations
  that follow, a second call for the same username, whatever the payment provider
  answers, returns False and changes neither the accounts, nor \<^verbatim>\<open>USERS\<close>, nor the file:
  the account is still unlocked and real, and its balance is what it was before the
  second call.
\<close>

theorem unlock_idempotent:
  assumes first: "check_payment_and_unlock ar name pay1 s = (True, s1)"
      and second: "check_payment_and_unlock ar name pay2 (run ar hashpw checkpw es s1) = (ok, s3)"
  shows "(\<exists>a u1. dict_get (USERS s1) name = Some a \<and> obj_at s1 a = Some u1 \<and>
            premium_unlocked u1 \<and> account_type u1 = ''real'' \<and> balance u1 = py_int ar 100) \<and>
         \<not> ok \<and>
         heap s3 = heap (run ar hashpw checkpw es s1) \<and>
         USERS s3 = USERS (run ar hashpw checkpw es s1) \<and>
         DATA_FILE s3 = DATA_FILE (run ar hashpw checkpw es s1) \<and>
         (\<exists>a u3. dict_get (USERS s3) name = Some a \<and> obj_at s3 a = Some u3 \<and>
            obj_at (run ar hashpw checkpw es s1) a = Some u3 \<and>
            premium_unlocked u3 \<and> account_type u3 = ''real'')"
proof -
  from first obtain ps where pay1: "pay1 = Inr ps" and scan: "unlock_scan ar ps name s = (True, s1)"
    by (cases pay1) (auto simp: check_payment_and_unlock_def)
  from unlock_scan_True[OF scan] obtain a u where
    a: "dict_get (USERS s) name = Some a" and u: "obj_at s a = Some u" and
    s1: "s1 = save_USERS (set_obj a (u\<lparr>premium_unlocked := True, account_type := ''real'',
                                        balance := py_int ar 100\<rparr>) s)"
    by blast
  let ?u1 = "u\<lparr>premium_unlocked := True, account_type := ''real'', balance := py_int ar 100\<rparr>"
  have a1: "dict_get (USERS s1) name = Some a"
    using a by (simp add: s1 state_fields)
  have u1: "obj_at s1 a = Some ?u1"
    using obj_at_set_obj_Some[OF u, of a ?u1] by (simp add: s1 state_fields)
  let ?s2 = "run ar hashpw checkpw es s1"
  from run_keeps[OF u1, of ar hashpw checkpw es] obtain u2 where
    u2: "obj_at ?s2 a = Some u2" "premium_unlocked u2" "account_type u2 = ''real''"
    by auto
  have a2: "dict_get (USERS ?s2) name = Some a" by (rule run_USERS[OF a1])
  have scan2: "unlock_scan ar qs name ?s2 = (False, ?s2)" for qs
    by (rule unlock_scan_unlocked[OF a2 u2(1,2)])
  have res: "\<not> ok \<and> heap s3 = heap ?s2 \<and> USERS s3 = USERS ?s2 \<and>
             DATA_FILE s3 = DATA_FILE ?s2 \<and> obj_at s3 a = obj_at ?s2 a"
    using second scan2
    by (cases pay2) (auto simp: check_payment_and_unlock_def state_fields)
  from res a2 u2 u1 a1 show ?thesis by auto
qed

theorem unlock_idempotent_witness:
  "check_payment_and_unlock double_arith ''alice'' (Inr [alice_paid]) alice_state
     = (True, snd (check_payment_and_unlock double_arith ''alice'' (Inr [alice_paid]) alice_state)) \<and>
   \<not> fst (check_payment_and_unlock double_arith ''alice'' (Inr [alice_paid, alice_paid])
            (run double_arith example_hashpw example_checkpw [PlaceTrade rising_world 10 ''up'']
               (snd (check_payment_and_unlock double_arith ''alice'' (Inr [alice_paid]) alice_state)))) \<and>
   map_option balance
     (obj_at (snd (check_payment_and_unlock double_arith ''alice'' (Inr [alice_paid, alice_paid])
            (run double_arith example_hashpw example_checkpw [PlaceTrade rising_world 10 ''up'']
               (snd (check_payment_and_unlock double_arith ''alice'' (Inr [alice_paid]) alice_state))))) 0)
     = Some 109"
proof -
  let ?s1 = "snd (check_payment_and_unlock double_arith ''alice'' (Inr [alice_paid]) alice_state)"
  let ?s2 = "run double_arith example_hashpw example_checkpw [PlaceTrade rising_world 10 ''up''] ?s1"
  let ?r = "check_payment_and_unlock double_arith ''alice'' (Inr [alice_paid, alice_paid]) ?s2"
  have first: "check_payment_and_unlock double_arith ''alice'' (Inr [alice_paid]) alice_state = (True, ?s1)"
    by (simp add: check_payment_and_unlock_def example_defs store_defs dict_get_def)
  have second: "?r = (fst ?r, snd ?r)" by simp
  have bal: "map_option balance (obj_at ?s2 0) = Some 109"
    by (simp add: check_payment_and_unlock_def place_trade_click_def example_defs store_defs
        engine_defs double_arith_fields double_point_nine)
       (simp add: round_double_eval)
  from unlock_idempotent[OF first second]
  have nf: "\<not> fst ?r" and hp: "heap (snd ?r) = heap ?s2"
    by blast+
  have o: "obj_at (snd ?r) 0 = obj_at ?s2 0"
    using hp by (simp only: obj_at_def)
  have b3: "map_option balance (obj_at (snd ?r) 0) = Some 109"
    unfolding o by (rule bal)
  from first nf b3 show ?thesis by blast
qed

text \<open>
  C7. \<^verbatim>\<open>get_real_market_trend\<close> returns "up" or "down" for every answer of the provider,
  for every behaviour of \<^verbatim>\<open>float\<close> and for every number drawn. When the \<^verbatim>\<open>try\<close> block
  raises, the result is \<^verbatim>\<open>random.choice(["up", "down"])\<close>, and both values are chosen:
  "up" for an even draw and "down" for an odd one. The request failing, a body that is
  not JSON and a body without the time series (a rate-limit notice) all raise.
\<close>

theorem get_real_market_trend_total:
  "(get_real_market_trend py_float gt f r = ''up'' \<or>
    get_real_market_trend py_float gt f r = ''down'') \<and>
   ((\<exists>e. fetch_trend py_float gt f = Inl e) \<longrightarrow>
      get_real_market_trend py_float gt f r = random_choice r [''up'', ''down'']) \<and>
   random_choice r [''up'', ''down''] = (if r mod 2 = 0 then ''up'' else ''down'') \<and>
   (f = RequestFailed \<or> f = BodyNotJSON \<or>
    (\<exists>d. f = Body (JObj d) \<and> dict_get d ''Time Series (1min)'' = None) \<longrightarrow>
      (\<exists>e. fetch_trend py_float gt f = Inl e))"
proof -
  have range: "get_real_market_trend py_float gt f r = ''up'' \<or>
               get_real_market_trend py_float gt f r = ''down''"
  proof (cases "fetch_trend py_float gt f")
    case (Inl e)
    then show ?thesis by (simp add: get_real_market_trend_def random_choice_up_down)
  next
    case (Inr t)
    with fetch_trend_up_down[OF Inr] show ?thesis by (simp add: get_real_market_trend_def)
  qed
  have fallback: "(\<exists>e. fetch_trend py_float gt f = Inl e) \<longrightarrow>
      get_real_market_trend py_float gt f r = random_choice r [''up'', ''down'']"
    by (auto simp: get_real_market_trend_def)
  have failures: "f = RequestFailed \<or> f = BodyNotJSON \<or>
    (\<exists>d. f = Body (JObj d) \<and> dict_get d ''Time Series (1min)'' = None) \<longrightarrow>
      (\<exists>e. fetch_trend py_float gt f = Inl e)"
    by (auto simp: fetch_trend_def subscript_def)
  from range fallback failures show ?thesis by (simp add: random_choice_up_down)
qed

theorem get_real_market_trend_total_witness:
  "(\<exists>d. Body (JObj [(''Note'', JStr ''call frequency'')]) = Body (JObj d) \<and>
        dict_get d ''Time Series (1min)'' = None) \<and>
   (\<exists>e. fetch_trend example_float (\<lambda>a b. a > b)
           (Body (JObj [(''Note'', JStr ''call frequency'')])) = Inl e) \<and>
   get_real_market_trend example_float (\<lambda>a b. a > b)
     (Body (JObj [(''Note'', JStr ''call frequency'')])) 3 = ''down''"
proof -
  have h: "\<exists>d. Body (JObj [(''Note'', JStr ''call frequency'')]) = Body (JObj d) \<and>
        dict_get d ''Time Series (1min)'' = None"
    by (simp add: dict_get_def)
  from get_real_market_trend_total[of example_float "\<lambda>a b. a > b"
         "Body (JObj [(''Note'', JStr ''call frequency'')])" 3] h
  show ?thesis by (auto simp: dict_get_def)
qed

text \<open>
  C8, as amended. \<^verbatim>\<open>create_stripe_checkout_session\<close> leaves the state as it found it,
  whatever the email and whatever the payment provider does, whether it returns or
  raises: no field of any account changes, nor \<^verbatim>\<open>USERS\<close>, nor the file. It does not
  return a URL on every call. With a user in the session it returns what the provider
  answers to the request for 500 cents tagged with that user's username: the URL when the
  provider creates the session, the provider's exception when it refuses. With no user in
  the session it raises before the provider is asked. The button that calls it changes
  only what the page shows.
\<close>

theorem create_checkout_can_raise:
  "create_stripe_checkout_session example_stripe ''alice.example.com'' alice_state
     = (Inl (ProviderError ''Invalid email address''), alice_state) \<and>
   create_stripe_checkout_session example_stripe ''alice@example.com'' initial_state
     = (Inl AttributeError, initial_state)"
  by (simp add: create_stripe_checkout_session_def example_defs obj_at_def
      checkout_request_for_def)

theorem create_checkout_frame:
  "snd (create_stripe_checkout_session stripe user_email s) = s \<and>
   population (snd (create_stripe_checkout_session stripe user_email s)) = population s \<and>
   (\<forall>a u. session_user s = Some a \<and> obj_at s a = Some u \<longrightarrow>
      fst (create_stripe_checkout_session stripe user_email s)
        = stripe (checkout_request_for user_email (username u))) \<and>
   (session_user s = None \<longrightarrow>
      fst (create_stripe_checkout_session stripe user_email s) = Inl AttributeError) \<and>
   unit_amount (checkout_request_for user_email name) = 500 \<and>
   request_metadata (checkout_request_for user_email name) = [(''username'', name)] \<and>
   heap (checkout_click stripe user_email s) = heap s \<and>
   USERS (checkout_click stripe user_email s) = USERS s \<and>
   DATA_FILE (checkout_click stripe user_email s) = DATA_FILE s \<and>
   session_user (checkout_click stripe user_email s) = session_user s \<and>
   population (checkout_click stripe user_email s) = population s"
proof -
  have frame: "snd (create_stripe_checkout_session stripe user_email s) = s"
    by (simp add: create_stripe_checkout_session_def split: option.splits)
  have ret: "\<forall>a u. session_user s = Some a \<and> obj_at s a = Some u \<longrightarrow>
      fst (create_stripe_checkout_session stripe user_email s)
        = stripe (checkout_request_for user_email (username u))"
    by (simp add: create_stripe_checkout_session_def)
  have nobody: "session_user s = None \<longrightarrow>
      fst (create_stripe_checkout_session stripe user_email s) = Inl AttributeError"
    by (simp add: create_stripe_checkout_session_def)
  have click: "\<exists>ns. checkout_click stripe user_email s = s\<lparr>shown := shown s @ ns\<rparr>"
  proof (cases "checkout_click stripe user_email s = s")
    case True
    then have "checkout_click stripe user_email s = s\<lparr>shown := shown s @ []\<rparr>" by simp
    then show ?thesis by blast
  next
    case False
    then show ?thesis
      by (auto simp: checkout_click_def create_stripe_checkout_session_def display_def
          split: option.splits sum.splits if_splits)
  qed
  then obtain ns where c: "checkout_click stripe user_email s = s\<lparr>shown := shown s @ ns\<rparr>"
    by blast
  have pop: "population (s\<lparr>shown := shown s @ ns\<rparr>) = population s"
    by (rule population_shown)
  from frame ret nobody pop show ?thesis
    by (simp add: c checkout_request_for_def)
qed

theorem create_checkout_frame_witness:
  "session_user alice_state = Some 0 \<and> obj_at alice_state 0 = Some alice \<and>
   create_stripe_checkout_session example_stripe ''alice@example.com'' alice_state
     = (Inr ''https://checkout.stripe.com/c/pay/alice'', alice_state)"
proof -
  have h: "session_user alice_state = Some 0 \<and> obj_at alice_state 0 = Some alice"
    by (simp add: alice_state_def obj_at_def)
  from create_checkout_frame[of example_stripe "''alice@example.com''" alice_state]
  have "snd (create_stripe_checkout_session example_stripe ''alice@example.com'' alice_state)
          = alice_state"
       "fst (create_stripe_checkout_session example_stripe ''alice@example.com'' alice_state)
          = example_stripe (checkout_request_for ''alice@example.com'' (username alice))"
    using h by blast+
  then have "create_stripe_checkout_session example_stripe ''alice@example.com'' alice_state
          = (example_stripe (checkout_request_for ''alice@example.com'' (username alice)),
             alice_state)"
    by (simp add: prod_eq_iff)
  with h show ?thesis by (simp add: checkout_request_for_def alice_def example_stripe_def)
qed

text \<open>
  C9. The premium flag of a new account is false, and across every sequence of in-memory
  operations (login or account creation, trades, checkout creation, payment verification)
  an account whose flag is true keeps it true; the username it is stored under keeps
  referring to it. The flag of an account stays true as well when the script is run again
  before every operation, which binds \<^verbatim>\<open>USERS\<close> to new objects and changes no object
  that exists.
\<close>

theorem premium_monotonic:
  "\<not> premium_unlocked (User ar name atype h) \<and>
   (obj_at s a = Some u \<and> premium_unlocked u \<longrightarrow>
      (\<exists>u'. obj_at (run ar hashpw checkpw es s) a = Some u' \<and> premium_unlocked u')) \<and>
   (dict_get (USERS s) k = Some a \<longrightarrow>
      dict_get (USERS (run ar hashpw checkpw es s)) k = Some a) \<and>
   (obj_at s a = Some u \<and> premium_unlocked u \<longrightarrow>
      (\<exists>u'. obj_at (clicks ar hashpw checkpw es s) a = Some u' \<and> premium_unlocked u'))"
proof -
  have "\<exists>u'. obj_at (run ar hashpw checkpw es s) a = Some u' \<and> premium_unlocked u'"
    if "obj_at s a = Some u" "premium_unlocked u"
    using run_keeps[OF that, of ar hashpw checkpw es] by blast
  moreover
  have "\<exists>u'. obj_at (clicks ar hashpw checkpw es s) a = Some u' \<and> premium_unlocked u'"
    if "obj_at s a = Some u" "premium_unlocked u"
    using clicks_keeps[OF that, of ar hashpw checkpw es] by blast
  ultimately show ?thesis by (auto simp: User_def run_USERS)
qed

theorem premium_monotonic_witness:
  "obj_at (snd (check_payment_and_unlock double_arith ''alice'' (Inr [alice_paid]) alice_state)) 0
     = Some (alice\<lparr>premium_unlocked := True, account_type := ''real'', balance := 100\<rparr>) \<and>
   premium_unlocked (alice\<lparr>premium_unlocked := True, account_type := ''real'', balance := 100\<rparr>) \<and>
   (\<exists>u'. obj_at
            (run double_arith example_hashpw example_checkpw
               [PlaceTrade offline_world 10 ''up'',
                Login ''s2'' ''alice'' ''wrong'' ''alice@example.com'' ''demo'',
                Login ''s3'' ''carol'' ''pw'' ''carol@example.com'' ''demo'',
                Verify (Inr [alice_paid])]
               (snd (check_payment_and_unlock double_arith ''alice'' (Inr [alice_paid]) alice_state))) 0
            = Some u' \<and> premium_unlocked u')"
proof -
  let ?s1 = "snd (check_payment_and_unlock double_arith ''alice'' (Inr [alice_paid]) alice_state)"
  let ?u = "alice\<lparr>premium_unlocked := True, account_type := ''real'', balance := 100\<rparr>"
  have h: "obj_at ?s1 0 = Some ?u \<and> premium_unlocked ?u"
    by (simp add: check_payment_and_unlock_def example_defs store_defs dict_get_def
        double_arith_fields)
  from premium_monotonic[where s = "?s1" and a = 0 and u = "?u" and ar = double_arith
         and hashpw = example_hashpw and checkpw = example_checkpw] h
  show ?thesis by blast
qed

text \<open>
  C10. An account whose stored credential is null cannot authenticate: for every password,
  the login handler shows "Incorrect password." and leaves the session as it was, without
  calling the credential check. A record of the file whose \<^verbatim>\<open>hashed_password\<close> is null
  or missing is loaded as such an account.
\<close>

theorem null_credential_rejected:
  assumes "dict_get (USERS s) name = Some a" and "obj_at s a = Some u"
      and "hashed_password u = None"
  shows "login_or_create ar hashpw checkpw salt name password email atype s
           = save_USERS (display IncorrectPassword s) \<and>
         session_user (login_or_create ar hashpw checkpw salt name password email atype s)
           = session_user s \<and>
         session_email (login_or_create ar hashpw checkpw salt name password email atype s)
           = session_email s \<and>
         shown (login_or_create ar hashpw checkpw salt name password email atype s)
           = shown s @ [IncorrectPassword] \<and>
         heap (login_or_create ar hashpw checkpw salt name password email atype s) = heap s \<and>
         (\<forall>d v. load_user ar name (JObj d) = Inr v \<and>
                 (dict_get d ''hashed_password'' = None \<or>
                  dict_get d ''hashed_password'' = Some JNull)
                 \<longrightarrow> hashed_password v = None)"
proof -
  from assms(1) have "dict_has (USERS s) name" by (simp add: dict_has_def dict_get_def)
  with assms have "login_or_create ar hashpw checkpw salt name password email atype s
           = save_USERS (display IncorrectPassword s)"
    by (simp add: login_or_create_def)
  then show ?thesis using load_user_null_credential by (auto simp: state_fields)
qed

theorem null_credential_rejected_witness:
  "dict_get (USERS bob_state) ''bob'' = Some 0 \<and> obj_at bob_state 0 = Some bob \<and>
   hashed_password bob = None \<and>
   load_users double_arith (DATA_FILE bob_state) = Inr [(''bob'', bob)] \<and>
   session_user (login_or_create double_arith example_hashpw (\<lambda>p h. Inr True) ''s2'' ''bob'' ''anything''
                   ''bob@example.com'' ''real'' bob_state) = None \<and>
   shown (login_or_create double_arith example_hashpw (\<lambda>p h. Inr True) ''s2'' ''bob'' ''anything''
            ''bob@example.com'' ''real'' bob_state) = [IncorrectPassword]"
proof -
  have h: "dict_get (USERS bob_state) ''bob'' = Some 0" "obj_at bob_state 0 = Some bob"
          "hashed_password bob = None"
    by (simp_all add: bob_state_def bob_def User_def obj_at_def dict_get_def)
  have l: "load_users double_arith (DATA_FILE bob_state) = Inr [(''bob'', bob)]"
    using load_items_user_info[of "[]" "[(''bob'', bob)]" double_arith]
    by (simp add: bob_state_def load_users_def save_users_def bob_def User_def)
  let ?after = "login_or_create double_arith example_hashpw (\<lambda>p h. Inr True) ''s2'' ''bob'' ''anything''
                   ''bob@example.com'' ''real'' bob_state"
  from null_credential_rejected[OF h, of double_arith example_hashpw "\<lambda>p h. Inr True" "''s2''"
         "''anything''" "''bob@example.com''" "''real''"]
  have "session_user ?after = session_user bob_state"
       "shown ?after = shown bob_state @ [IncorrectPassword]"
    by blast+
  then have r: "session_user ?after = None" "shown ?after = [IncorrectPassword]"
    by (simp_all add: bob_state_def)
  from h l r show ?thesis by blast
qed

end
